theory Spec2Isabelle
  imports Complex_Main
begin

section \<open>Data model\<close>

text \<open>
  The feature collection is parsed JSON. A numeric property of a feature
  (\<^verbatim>\<open>population\<close>, \<^verbatim>\<open>average\<close>, \<^verbatim>\<open>jan\<close> .. \<^verbatim>\<open>dec\<close>) holds a number, holds \<^verbatim>\<open>null\<close>, or is
  absent, in which case reading it yields \<^verbatim>\<open>undefined\<close>. Finite JavaScript numbers are
  modelled as reals and arithmetic on them is exact, with one exception: the mean of the
  diverging scale, whose value is a breakpoint, takes the rounding of double arithmetic
  as a parameter.
\<close>

datatype jsval = JUndefined | JNull | JNum real

text \<open>
  Numbers computed by the program can leave the finite range: \<^verbatim>\<open>Math.min()\<close> of nothing
  is \<^verbatim>\<open>Infinity\<close>, \<^verbatim>\<open>0 / 0\<close> and \<^verbatim>\<open>+undefined\<close> are \<^verbatim>\<open>NaN\<close>.
\<close>

datatype jsnumber = NaN | NegInf | Fin real | PosInf

text \<open>
  \<^verbatim>\<open>feature.properties\<close>: the basin name and the continent are strings, every other
  property is read by name.
\<close>

record feature =
  RIVERBASIN :: string
  CONTINENT :: string
  properties :: "string \<Rightarrow> jsval"

definition MONTHS :: "string list" where
  "MONTHS = [''jan'', ''feb'', ''mar'', ''apr'', ''may'', ''jun'',
             ''jul'', ''aug'', ''sep'', ''oct'', ''nov'', ''dec'']"

text \<open>\<^verbatim>\<open>.filter((v) => v !== null && v !== undefined)\<close>: what stays is a list of numbers.\<close>

fun filter_present :: "jsval list \<Rightarrow> real list" where
  "filter_present [] = []"
| "filter_present (JNum x # vs) = x # filter_present vs"
| "filter_present (JNull # vs) = filter_present vs"
| "filter_present (JUndefined # vs) = filter_present vs"

section \<open>Arithmetic on JavaScript numbers\<close>

fun js_sub :: "jsnumber \<Rightarrow> jsnumber \<Rightarrow> jsnumber" where
  "js_sub (Fin a) (Fin b) = Fin (a - b)"
| "js_sub NaN _ = NaN"
| "js_sub _ NaN = NaN"
| "js_sub PosInf PosInf = NaN"
| "js_sub NegInf NegInf = NaN"
| "js_sub PosInf _ = PosInf"
| "js_sub NegInf _ = NegInf"
| "js_sub (Fin a) PosInf = NegInf"
| "js_sub (Fin a) NegInf = PosInf"

fun js_div :: "jsnumber \<Rightarrow> jsnumber \<Rightarrow> jsnumber" where
  "js_div (Fin a) (Fin b) =
     (if b \<noteq> 0 then Fin (a / b)
      else if a = 0 then NaN else if 0 < a then PosInf else NegInf)"
| "js_div NaN _ = NaN"
| "js_div _ NaN = NaN"
| "js_div (Fin a) PosInf = Fin 0"
| "js_div (Fin a) NegInf = Fin 0"
| "js_div PosInf (Fin b) = (if 0 \<le> b then PosInf else NegInf)"
| "js_div NegInf (Fin b) = (if 0 \<le> b then NegInf else PosInf)"
| "js_div PosInf _ = NaN"
| "js_div NegInf _ = NaN"

text \<open>\<^verbatim>\<open>a < b\<close> and \<^verbatim>\<open>a <= b\<close>: every comparison with \<^verbatim>\<open>NaN\<close> is false.\<close>

fun js_lt :: "jsnumber \<Rightarrow> jsnumber \<Rightarrow> bool" where
  "js_lt (Fin a) (Fin b) = (a < b)"
| "js_lt NaN _ = False"
| "js_lt _ NaN = False"
| "js_lt NegInf NegInf = False"
| "js_lt NegInf _ = True"
| "js_lt _ NegInf = False"
| "js_lt PosInf _ = False"
| "js_lt (Fin a) PosInf = True"

fun js_le :: "jsnumber \<Rightarrow> jsnumber \<Rightarrow> bool" where
  "js_le (Fin a) (Fin b) = (a \<le> b)"
| "js_le NaN _ = False"
| "js_le _ NaN = False"
| "js_le NegInf _ = True"
| "js_le PosInf PosInf = True"
| "js_le PosInf _ = False"
| "js_le (Fin a) PosInf = True"
| "js_le (Fin a) NegInf = False"

text \<open>A number in a condition: \<^verbatim>\<open>NaN\<close> and zero are falsy.\<close>

fun truthy :: "jsnumber \<Rightarrow> bool" where
  "truthy NaN = False"
| "truthy (Fin a) = (a \<noteq> 0)"
| "truthy _ = True"

text \<open>\<^verbatim>\<open>Math.min(...xs)\<close> and \<^verbatim>\<open>Math.max(...xs)\<close> over finite numbers.\<close>

fun Math_min :: "real list \<Rightarrow> jsnumber" where
  "Math_min [] = PosInf"
| "Math_min (x # xs) = (case Math_min xs of Fin m \<Rightarrow> Fin (min x m) | _ \<Rightarrow> Fin x)"

fun Math_max :: "real list \<Rightarrow> jsnumber" where
  "Math_max [] = NegInf"
| "Math_max (x # xs) = (case Math_max xs of Fin m \<Rightarrow> Fin (max x m) | _ \<Rightarrow> Fin x)"

text \<open>
  \<^verbatim>\<open>xs[i]\<close> for an integer \<^verbatim>\<open>i\<close>, read as a number: an index out of range yields
  \<^verbatim>\<open>undefined\<close>, which a scale's domain turns into \<^verbatim>\<open>NaN\<close>.
\<close>

definition index_number :: "real list \<Rightarrow> int \<Rightarrow> jsnumber" where
  "index_number xs i = (if 0 \<le> i \<and> i < int (length xs) then Fin (xs ! nat i) else NaN)"

section \<open>The linear colour scale of the d3 library\<close>

text \<open>
  \<^verbatim>\<open>d3.scaleLinear().domain(..).range(..)\<close> is a call into the d3 library, which is not
  part of the repository. The definitions of this section follow the library's behaviour
  (d3 7: \<^verbatim>\<open>continuous.js\<close> of d3-scale, \<^verbatim>\<open>bisect\<close> of d3-array, \<^verbatim>\<open>rgb.js\<close> of
  d3-interpolate and \<^verbatim>\<open>formatRgb\<close> of d3-color). A colour is its three channels: the
  library prints the hex colours of a range as \<^verbatim>\<open>rgb(r, g, b)\<close>.
\<close>

datatype rgb = Rgb (red: int) (green: int) (blue: int)

text \<open>
  The scale object: \<^verbatim>\<open>domain()\<close> returns the breakpoints. \<^verbatim>\<open>clamp\<close> is off unless the
  caller turns it on with \<^verbatim>\<open>.clamp(true)\<close>.
\<close>

record scale =
  domain :: "jsnumber list"
  range_colors :: "rgb list"
  clamp :: bool

definition scaleLinear :: "jsnumber list \<Rightarrow> rgb list \<Rightarrow> scale" where
  "scaleLinear d r = \<lparr>domain = d, range_colors = r, clamp = False\<rparr>"

text \<open>
  \<^verbatim>\<open>normalize(a, b)\<close>: the position of \<^verbatim>\<open>x\<close> between \<^verbatim>\<open>a\<close> and \<^verbatim>\<open>b\<close>; a segment of width
  zero yields the constant \<^verbatim>\<open>0.5\<close>.
  \<^verbatim>\<open>
  function normalize(a, b) {
    return (b -= (a = +a))
        ? function(x) { return (x - a) / b; }
        : constant(isNaN(b) ? NaN : 0.5);
  }\<close>
\<close>

definition normalize_d3 :: "jsnumber \<Rightarrow> jsnumber \<Rightarrow> jsnumber \<Rightarrow> jsnumber" where
  "normalize_d3 a b x =
     (let b' = js_sub b a in
      if truthy b' then js_div (js_sub x a) b'
      else if b' = NaN then NaN else Fin (1 / 2))"

text \<open>
  One channel of \<^verbatim>\<open>interpolateRgb(a, b)(t)\<close>: \<^verbatim>\<open>linear(a, d)\<close>, which is \<^verbatim>\<open>a + t * d\<close> for
  \<^verbatim>\<open>d = b - a\<close>, or the constant \<^verbatim>\<open>a\<close> when both ends agree (\<^verbatim>\<open>nogamma\<close>). The
  library's \<^verbatim>\<open>normalize\<close> and \<^verbatim>\<open>linear\<close> are \<open>normalize_d3\<close> and \<open>linear_d3\<close> here.
\<close>

fun linear_d3 :: "real \<Rightarrow> real \<Rightarrow> jsnumber \<Rightarrow> jsnumber" where
  "linear_d3 a d (Fin t) = Fin (a + t * d)"
| "linear_d3 a d NaN = NaN"
| "linear_d3 a d PosInf = (if 0 < d then PosInf else NegInf)"
| "linear_d3 a d NegInf = (if 0 < d then NegInf else PosInf)"

definition nogamma :: "int \<Rightarrow> int \<Rightarrow> jsnumber \<Rightarrow> jsnumber" where
  "nogamma a b t = (if b - a \<noteq> 0 then linear_d3 (real_of_int a) (real_of_int (b - a)) t
                    else Fin (real_of_int a))"

text \<open>
  Printing a channel: \<^verbatim>\<open>Math.max(0, Math.min(255, Math.round(v) || 0))\<close>.
  \<^verbatim>\<open>Math.round\<close> rounds a half upwards.
\<close>

fun clampi :: "jsnumber \<Rightarrow> int" where
  "clampi (Fin v) = max 0 (min 255 \<lfloor>v + 1 / 2\<rfloor>)"
| "clampi NaN = 0"
| "clampi PosInf = 255"
| "clampi NegInf = 0"

definition interpolateRgb :: "rgb \<Rightarrow> rgb \<Rightarrow> jsnumber \<Rightarrow> rgb" where
  "interpolateRgb a b t =
     Rgb (clampi (nogamma (red a) (red b) t))
         (clampi (nogamma (green a) (green b) t))
         (clampi (nogamma (blue a) (blue b) t))"

text \<open>
  \<^verbatim>\<open>bisectRight(a, x, lo, hi)\<close>:
  \<^verbatim>\<open>
  while (lo < hi) {
    const mid = (lo + hi) >>> 1;
    if (compare(a[mid], x) <= 0) lo = mid + 1; else hi = mid;
  }
  return lo;\<close>
\<close>

function bisect :: "jsnumber list \<Rightarrow> jsnumber \<Rightarrow> nat \<Rightarrow> nat \<Rightarrow> nat" where
  "bisect a x lo hi =
     (if lo < hi then
        (let mid = (lo + hi) div 2 in
         if js_le (a ! mid) x then bisect a x (mid + 1) hi else bisect a x lo mid)
      else lo)"
  by pat_completeness auto
termination
  by (relation "measure (\<lambda>(a, x, lo, hi). hi - lo)") auto

declare bisect.simps [simp del]

text \<open>
  Two stops:
  \<^verbatim>\<open>
  function bimap(domain, range, interpolate) {
    var d0 = domain[0], d1 = domain[1], r0 = range[0], r1 = range[1];
    if (d1 < d0) d0 = normalize(d1, d0), r0 = interpolate(r1, r0);
    else d0 = normalize(d0, d1), r0 = interpolate(r0, r1);
    return function(x) { return r0(d0(x)); };
  }\<close>
\<close>

definition bimap :: "jsnumber list \<Rightarrow> rgb list \<Rightarrow> jsnumber \<Rightarrow> rgb" where
  "bimap d r x =
     (let d0 = d ! 0; d1 = d ! 1; r0 = r ! 0; r1 = r ! 1 in
      if js_lt d1 d0 then interpolateRgb r1 r0 (normalize_d3 d1 d0 x)
      else interpolateRgb r0 r1 (normalize_d3 d0 d1 x))"

text \<open>
  More than two stops:
  \<^verbatim>\<open>
  function polymap(domain, range, interpolate) {
    var j = Math.min(domain.length, range.length) - 1, d = new Array(j), r = new Array(j), i = -1;
    if (domain[j] < domain[0]) {
      domain = domain.slice().reverse();
      range = range.slice().reverse();
    }
    while (++i < j) {
      d[i] = normalize(domain[i], domain[i + 1]);
      r[i] = interpolate(range[i], range[i + 1]);
    }
    return function(x) {
      var i = bisect(domain, x, 1, j) - 1;
      return r[i](d[i](x));
    };
  }\<close>
\<close>

definition polymap :: "jsnumber list \<Rightarrow> rgb list \<Rightarrow> jsnumber \<Rightarrow> rgb" where
  "polymap d r x =
     (let j = min (length d) (length r) - 1;
          d' = (if js_lt (d ! j) (d ! 0) then rev d else d);
          r' = (if js_lt (d ! j) (d ! 0) then rev r else r);
          i = bisect d' x 1 j - 1
      in interpolateRgb (r' ! i) (r' ! (i + 1)) (normalize_d3 (d' ! i) (d' ! (i + 1)) x))"

text \<open>
  \<^verbatim>\<open>clamper(a, b)\<close>: \<^verbatim>\<open>Math.max(a, Math.min(b, x))\<close> after ordering \<^verbatim>\<open>a\<close> and \<^verbatim>\<open>b\<close>.
  \<^verbatim>\<open>Math.max\<close> and \<^verbatim>\<open>Math.min\<close> return \<^verbatim>\<open>NaN\<close> as soon as an argument is \<^verbatim>\<open>NaN\<close>.
\<close>

definition js_min2 :: "jsnumber \<Rightarrow> jsnumber \<Rightarrow> jsnumber" where
  "js_min2 a b = (if a = NaN \<or> b = NaN then NaN else if js_le a b then a else b)"

definition js_max2 :: "jsnumber \<Rightarrow> jsnumber \<Rightarrow> jsnumber" where
  "js_max2 a b = (if a = NaN \<or> b = NaN then NaN else if js_le a b then b else a)"

definition clamper :: "jsnumber \<Rightarrow> jsnumber \<Rightarrow> jsnumber \<Rightarrow> jsnumber" where
  "clamper a b x =
     (let lo = (if js_lt b a then b else a); hi = (if js_lt b a then a else b)
      in js_max2 lo (js_min2 hi x))"

text \<open>
  Applying the scale to a number:
  \<^verbatim>\<open>(output || (output = piecewise(domain, range, interpolate)))(clamp(x))\<close> with
  \<^verbatim>\<open>piecewise = n > 2 ? polymap : bimap\<close> and \<^verbatim>\<open>n = Math.min(domain.length, range.length)\<close>.
  Every scale of this program has two or three stops.
\<close>

definition scale_apply :: "scale \<Rightarrow> real \<Rightarrow> rgb" where
  "scale_apply s x =
     (let n = min (length (domain s)) (length (range_colors s));
          x' = (if clamp s then clamper (domain s ! 0) (domain s ! (n - 1)) (Fin x) else Fin x)
      in if 2 < n then polymap (domain s) (range_colors s) x'
         else bimap (domain s) (range_colors s) x')"

text \<open>
  \<^verbatim>\<open>d3.extent(values)\<close> is \<^verbatim>\<open>[min, max]\<close>, or \<^verbatim>\<open>[undefined, undefined]\<close> for no values; as
  domain entries the latter are \<^verbatim>\<open>NaN\<close>.
\<close>

definition extent :: "real list \<Rightarrow> jsnumber \<times> jsnumber" where
  "extent xs = (if xs = [] then (NaN, NaN) else (Math_min xs, Math_max xs))"

section \<open>The colour scales of the map (\<^verbatim>\<open>components/Map.js\<close>)\<close>

datatype error = InvalidCutoffType

definition colorLow :: rgb where "colorLow = Rgb 44 123 182"    \<comment> \<open>\<^verbatim>\<open>#2c7bb6\<close>\<close>
definition colorMid :: rgb where "colorMid = Rgb 255 255 191"   \<comment> \<open>\<^verbatim>\<open>#ffffbf\<close>\<close>
definition colorHigh :: rgb where "colorHigh = Rgb 215 25 28"   \<comment> \<open>\<^verbatim>\<open>#d7191c\<close>\<close>

text \<open>
  \<^verbatim>\<open>createDivergingColorScale(data, property, cutoffType, cutoffValue)\<close>. The sort is in
  place, so \<^verbatim>\<open>d3.extent\<close> reads the sorted array in the percentile branch. The result
  is the error thrown, or the scale.

  The mean is computed in double arithmetic, \<^verbatim>\<open>values.reduce((sum, v) => sum + v, 0) /
  values.length\<close>: every addition and the division round their exact result to a double.
  That rounding is the parameter \<open>fl\<close> of the builder (round to nearest in the running
  program, within the finite range); nothing is assumed of it, so what is proved holds
  for the rounding of doubles as for exact arithmetic. The mean of no values is
  \<^verbatim>\<open>0 / 0\<close>, which is \<^verbatim>\<open>NaN\<close>. In the percentile branch the product with the default
  fraction \<^verbatim>\<open>0.3\<close> has the same floor rounded as exact.
\<close>

fun js_round :: "(real \<Rightarrow> real) \<Rightarrow> jsnumber \<Rightarrow> jsnumber" where
  "js_round fl (Fin x) = Fin (fl x)"
| "js_round fl NaN = NaN"
| "js_round fl PosInf = PosInf"
| "js_round fl NegInf = NegInf"

definition createDivergingColorScale ::
    "(real \<Rightarrow> real) \<Rightarrow> feature list \<Rightarrow> string \<Rightarrow> string \<Rightarrow> real \<Rightarrow> error + scale" where
  "createDivergingColorScale fl features property cutoffType cutoffValue =
     (let values = filter_present (map (\<lambda>f. properties f property) features) in
      if cutoffType = ''percentile'' then
        (let sorted = sort values;
             cutoffIndex = \<lfloor>real (length sorted) * cutoffValue\<rfloor>;
             minCutoff = index_number sorted cutoffIndex;
             (minValue, maxValue) = extent sorted
         in Inr (scaleLinear [minValue, minCutoff, maxValue] [colorLow, colorMid, colorHigh]))
      else if cutoffType = ''mean'' then
        (let mean = js_round fl (js_div (Fin (foldl (\<lambda>sum v. fl (sum + v)) 0 values))
                                        (Fin (real (length values))));
             (minValue, maxValue) = extent values
         in Inr (scaleLinear [minValue, mean, maxValue] [colorLow, colorMid, colorHigh]))
      else if cutoffType = ''fixed'' then
        (let (minValue, maxValue) = extent values
         in Inr (scaleLinear [minValue, Fin cutoffValue, maxValue] [colorLow, colorMid, colorHigh]))
      else Inl InvalidCutoffType)"

text \<open>
  The map calls the builder as \<^verbatim>\<open>createQuantileColorScale(geojsonData, propertyToView)\<close>:
  the defaults \<^verbatim>\<open>cutoffType = 'percentile'\<close> and \<^verbatim>\<open>cutoffValue = 0.3\<close> apply.
\<close>

definition createQuantileColorScale ::
    "(real \<Rightarrow> real) \<Rightarrow> feature list \<Rightarrow> string \<Rightarrow> error + scale" where
  "createQuantileColorScale fl features property =
     createDivergingColorScale fl features property ''percentile'' (3 / 10)"

text \<open>
  \<^verbatim>\<open>calculateMonthlyGlobalMinMax(data)\<close>: \<^verbatim>\<open>flatMap\<close> over the features of the twelve
  month fields, \<^verbatim>\<open>null\<close> and \<^verbatim>\<open>undefined\<close> filtered out.
\<close>

definition calculateMonthlyGlobalMinMax :: "feature list \<Rightarrow> jsnumber \<times> jsnumber" where
  "calculateMonthlyGlobalMinMax features =
     (let allValues = concat (map (\<lambda>f. filter_present (map (\<lambda>month. properties f month) MONTHS)) features)
      in (Math_min allValues, Math_max allValues))"

definition createFixedContinuousColorScale :: "jsnumber \<Rightarrow> jsnumber \<Rightarrow> scale" where
  "createFixedContinuousColorScale mn mx =
     scaleLinear [mn, mx] [Rgb 254 229 217, Rgb 165 15 21]"    \<comment> \<open>\<^verbatim>\<open>#fee5d9\<close>, \<^verbatim>\<open>#a50f15\<close>\<close>

text \<open>
  The effect of \<^verbatim>\<open>Map\<close> that rebuilds the colour scale from the selected property, the
  selected month and the stored global extrema (\<^verbatim>\<open>null\<close> until they are computed). The
  result is \<^verbatim>\<open>None\<close> when the state is left as it is, else the error thrown or the new
  \<^verbatim>\<open>colorScale\<close> and \<^verbatim>\<open>isContinuous\<close>.
\<close>

definition updateColorScale ::
    "(real \<Rightarrow> real) \<Rightarrow> feature list \<Rightarrow> string \<Rightarrow> string \<Rightarrow> (jsnumber \<times> jsnumber) option
       \<Rightarrow> (error + scale \<times> bool) option" where
  "updateColorScale fl features selectedProperty selectedMonth monthlyGlobalMinMax =
     (let propertyToView = (if selectedProperty = ''monthly'' then selectedMonth else selectedProperty) in
      if propertyToView = [] then None
      else if selectedProperty = ''monthly'' \<and> monthlyGlobalMinMax \<noteq> None then
        Some (Inr (createFixedContinuousColorScale (fst (the monthlyGlobalMinMax))
                     (snd (the monthlyGlobalMinMax)), True))
      else
        Some (case createQuantileColorScale fl features propertyToView of
                Inl e \<Rightarrow> Inl e
              | Inr s \<Rightarrow> Inr (s, False)))"

text \<open>
  \<^verbatim>\<open>geoJSONStyle(colorScale, property, feature, selectedMapArea, showRivers)\<close>. The
  selection is a basin name, or none (\<^verbatim>\<open>null\<close>).
\<close>

record style =
  fillColor :: rgb
  weight :: nat
  opacity :: nat
  color :: string
  dashArray :: string
  fillOpacity :: real
  interactive :: bool

definition geoJSONStyle :: "scale \<Rightarrow> string \<Rightarrow> feature \<Rightarrow> string option \<Rightarrow> bool \<Rightarrow> style" where
  "geoJSONStyle colorScale property feature selectedMapArea showRivers =
     (let v = properties feature property;
          isSelected = (Some (RIVERBASIN feature) = selectedMapArea)
      in \<lparr>fillColor = (case v of JNum x \<Rightarrow> scale_apply colorScale x | _ \<Rightarrow> Rgb 211 211 211),
          weight = (if isSelected then 5 else 2),
          opacity = 1,
          color = (if isSelected then ''blue'' else ''white''),
          dashArray = ''3'',
          fillOpacity = (case v of JNum x \<Rightarrow> 7 / 10 | _ \<Rightarrow> 5 / 10),
          interactive = (\<not> showRivers)\<rparr>)"

section \<open>The bar chart\<close>

text \<open>\<^verbatim>\<open>v || 0\<close> for a property value: \<^verbatim>\<open>undefined\<close>, \<^verbatim>\<open>null\<close> and zero are falsy.\<close>

fun or_zero :: "jsval \<Rightarrow> real" where
  "or_zero (JNum x) = (if x \<noteq> 0 then x else 0)"
| "or_zero JNull = 0"
| "or_zero JUndefined = 0"

definition monthlyData :: "feature \<Rightarrow> real list" where
  "monthlyData basinData =
     [or_zero (properties basinData ''jan''),
      or_zero (properties basinData ''feb''),
      or_zero (properties basinData ''mar''),
      or_zero (properties basinData ''apr''),
      or_zero (properties basinData ''may''),
      or_zero (properties basinData ''jun''),
      or_zero (properties basinData ''jul''),
      or_zero (properties basinData ''aug''),
      or_zero (properties basinData ''sep''),
      or_zero (properties basinData ''oct''),
      or_zero (properties basinData ''nov''),
      or_zero (properties basinData ''dec'')]"

text \<open>
  \<^verbatim>\<open>data.find(.. === selectedBasin) || data.find(.. === 'AMUR')\<close>: the first feature of
  that name, else the first feature named \<^verbatim>\<open>AMUR\<close>, else \<^verbatim>\<open>undefined\<close>.
\<close>

definition findBasin :: "feature list \<Rightarrow> string \<Rightarrow> feature option" where
  "findBasin features selectedBasin =
     (case find (\<lambda>item. RIVERBASIN item = selectedBasin) features of
        Some f \<Rightarrow> Some f
      | None \<Rightarrow> find (\<lambda>item. RIVERBASIN item = ''AMUR'') features)"

text \<open>
  What \<^verbatim>\<open>BarChart\<close> renders: the prompt to select a basin, the message that there is no
  data, or the chart with its label (built from the selection) and its twelve bars.
  \<^verbatim>\<open>!selectedBasin\<close> holds for \<^verbatim>\<open>null\<close>, \<^verbatim>\<open>undefined\<close> and the empty string.
\<close>

datatype view = SelectPrompt | NoDataAvailable | Chart string "real list"

definition BarChart :: "feature list \<Rightarrow> string option \<Rightarrow> view" where
  "BarChart features selectedBasin =
     (case selectedBasin of
        None \<Rightarrow> SelectPrompt
      | Some s \<Rightarrow>
          if s = [] then SelectPrompt
          else (case findBasin features s of
                  None \<Rightarrow> NoDataAvailable
                | Some basinData \<Rightarrow>
                    Chart (''Monthly Water Shortage for '' @ s) (monthlyData basinData)))"

section \<open>The treemap hierarchy (\<^verbatim>\<open>components/TreeMap.js\<close>)\<close>

record node =
  node_id :: string
  node_value :: real
  population :: jsval
  waterScarcity :: jsval
  continent :: string

record hierarchy =
  name :: string
  children :: "node list"

text \<open>
  The operands of \<^verbatim>\<open>waterScarcity * population\<close> as numbers: \<^verbatim>\<open>null\<close> counts as zero.
  The product is computed only behind the guard that excludes \<^verbatim>\<open>undefined\<close>.
\<close>

fun to_number :: "jsval \<Rightarrow> real" where
  "to_number (JNum x) = x"
| "to_number JNull = 0"
| "to_number JUndefined = 0"

text \<open>One round of the \<^verbatim>\<open>forEach\<close>: the node pushed for an item, if any.\<close>

definition pushed :: "feature \<Rightarrow> node option" where
  "pushed item =
     (let ws = properties item ''average'';
          pop = properties item ''population''
      in if ws = JUndefined \<or> pop = JUndefined then None
         else Some \<lparr>node_id = RIVERBASIN item,
                    node_value = to_number ws * to_number pop,
                    population = pop,
                    waterScarcity = ws,
                    continent = CONTINENT item\<rparr>)"

text \<open>
  \<^verbatim>\<open>calculateWaterScarcity(data)\<close>. \<^verbatim>\<open>children.sort((a, b) => b.value - a.value)\<close> is a
  stable sort into descending order of \<^verbatim>\<open>value\<close>.
\<close>

definition calculateWaterScarcity :: "feature list \<Rightarrow> hierarchy" where
  "calculateWaterScarcity features =
     \<lparr>name = ''Water Scarcity * Population'',
      children = sort_key (\<lambda>n. - node_value n) (List.map_filter pushed features)\<rparr>"

section \<open>Comparing colours\<close>

text \<open>One colour is below another when each of its channels is.\<close>

definition channels_le :: "rgb \<Rightarrow> rgb \<Rightarrow> bool" where
  "channels_le a b = (red a \<le> red b \<and> green a \<le> green b \<and> blue a \<le> blue b)"

section \<open>Sample collections\<close>

text \<open>A feature from its name, its continent and the numeric properties that are present.\<close>

definition basin :: "string \<Rightarrow> string \<Rightarrow> (string \<times> jsval) list \<Rightarrow> feature" where
  "basin n c ps =
     \<lparr>RIVERBASIN = n, CONTINENT = c,
      properties = (\<lambda>k. case map_of ps k of Some v \<Rightarrow> v | None \<Rightarrow> JUndefined)\<rparr>"

text \<open>Ten basins whose populations are the numbers 1 to 10, in no particular order.\<close>

definition ten_basins :: "feature list" where
  "ten_basins =
     map (\<lambda>(n, p). basin n ''Asia'' [(''population'', JNum p)])
       [(''A'', 7), (''B'', 2), (''C'', 9), (''D'', 4), (''E'', 1),
        (''F'', 10), (''G'', 3), (''H'', 8), (''I'', 5), (''J'', 6)]"

text \<open>Three basins of one and the same population.\<close>

definition equal_basins :: "feature list" where
  "equal_basins =
     [basin ''A'' ''Asia'' [(''population'', JNum 5)],
      basin ''B'' ''Asia'' [(''population'', JNum 5)],
      basin ''C'' ''Asia'' [(''population'', JNum 5)]]"

text \<open>
  A collection with the default basin: \<^verbatim>\<open>NILE\<close> has no value for July, \<^verbatim>\<open>VOLGA\<close> has
  no population, the average of \<^verbatim>\<open>DANUBE\<close> is \<^verbatim>\<open>null\<close>.
\<close>

definition amur :: feature where
  "amur = basin ''AMUR'' ''Asia''
     [(''population'', JNum 1000000), (''average'', JNum 5),
      (''jan'', JNum 0), (''feb'', JNum 10), (''mar'', JNum 20), (''apr'', JNum 30),
      (''may'', JNum 40), (''jun'', JNum 50), (''jul'', JNum 100), (''aug'', JNum 70),
      (''sep'', JNum 60), (''oct'', JNum 50), (''nov'', JNum 20), (''dec'', JNum 10)]"

definition nile :: feature where
  "nile = basin ''NILE'' ''Africa''
     [(''population'', JNum 3000000), (''average'', JNum 8),
      (''jan'', JNum 80), (''feb'', JNum 80), (''mar'', JNum 85), (''apr'', JNum 90),
      (''may'', JNum 95), (''jun'', JNum 95), (''aug'', JNum 90),
      (''sep'', JNum 85), (''oct'', JNum 80), (''nov'', JNum 80), (''dec'', JNum 80)]"

definition volga :: feature where
  "volga = basin ''VOLGA'' ''Europe'' [(''average'', JNum 2), (''jan'', JNum 3)]"

definition danube :: feature where
  "danube = basin ''DANUBE'' ''Europe'' [(''population'', JNum 2000000), (''average'', JNull)]"

definition sample :: "feature list" where
  "sample = [amur, nile, volga, danube]"

section \<open>Auxiliary facts\<close>

lemma Math_min_Fin: "xs \<noteq> [] \<Longrightarrow> Math_min xs = Fin (Min (set xs))"
proof (induction xs)
  case Nil
  then show ?case by simp
next
  case (Cons x xs)
  show ?case
  proof (cases "xs = []")
    case True
    then show ?thesis by simp
  next
    case False
    with Cons.IH have "Math_min xs = Fin (Min (set xs))" by simp
    with False show ?thesis by (simp add: min.commute)
  qed
qed

lemma Math_max_Fin: "xs \<noteq> [] \<Longrightarrow> Math_max xs = Fin (Max (set xs))"
proof (induction xs)
  case Nil
  then show ?case by simp
next
  case (Cons x xs)
  show ?case
  proof (cases "xs = []")
    case True
    then show ?thesis by simp
  next
    case False
    with Cons.IH have "Math_max xs = Fin (Max (set xs))" by simp
    with False show ?thesis by (simp add: max.commute)
  qed
qed

lemma floor_three_tenths: "\<lfloor>real n * (3 / 10)\<rfloor> = (3 * int n) div 10"
proof -
  have "real n * (3 / 10) = real_of_int (3 * int n) / real_of_int 10" by simp
  then show ?thesis by (simp only: floor_divide_of_int_eq)
qed

lemma percentile_index_in_range:
  assumes "0 < n"
  shows "0 \<le> \<lfloor>real n * (3 / 10)\<rfloor> \<and> \<lfloor>real n * (3 / 10)\<rfloor> < int n"
  using assms unfolding floor_three_tenths by auto

section \<open>The percentile cutoff\<close>

text \<open>
  Claim C1. With the default strategy (\<^verbatim>\<open>percentile\<close>, fraction \<^verbatim>\<open>0.3\<close>) and at least
  one value present, the builder returns a scale whose middle breakpoint, the cutoff,
  is the element at index \<open>\<lfloor>n \<times> 0.3\<rfloor>\<close> of the values sorted ascending, counted from
  zero. That index is \<open>3n div 10\<close>, which lies inside the array and, from two values on,
  before the middle index \<open>n div 2\<close>: the cutoff is the 30th percentile, not the median.
  Over the values 1 to 10 the index is 3 and the cutoff is 4.
\<close>

theorem percentile_cutoff_is_element_at_floor_index:
  assumes "values = filter_present (map (\<lambda>f. properties f property) features)"
    and "values \<noteq> []"
  shows "\<exists>s. createQuantileColorScale fl features property = Inr s
           \<and> domain s ! 1 = Fin (sort values ! nat \<lfloor>real (length values) * (3 / 10)\<rfloor>)
           \<and> nat \<lfloor>real (length values) * (3 / 10)\<rfloor> = (3 * length values) div 10
           \<and> (3 * length values) div 10 < length values
           \<and> (2 \<le> length values \<longrightarrow> (3 * length values) div 10 < length values div 2)"
proof -
  let ?n = "length values"
  from assms(2) have n: "0 < ?n" by simp
  have idx: "0 \<le> \<lfloor>real ?n * (3 / 10)\<rfloor>" "\<lfloor>real ?n * (3 / 10)\<rfloor> < int ?n"
    using percentile_index_in_range [OF n] by simp_all
  have cut: "index_number (sort values) \<lfloor>real (length (sort values)) * (3 / 10)\<rfloor>
               = Fin (sort values ! nat \<lfloor>real ?n * (3 / 10)\<rfloor>)"
    using idx by (simp add: index_number_def)
  have nat_idx: "nat \<lfloor>real ?n * (3 / 10)\<rfloor> = (3 * ?n) div 10"
    unfolding floor_three_tenths by (simp add: nat_div_distrib nat_mult_distrib)
  have lt: "(3 * ?n) div 10 < ?n" using n by arith
  have md: "2 \<le> ?n \<longrightarrow> (3 * ?n) div 10 < ?n div 2" by arith
  have "createQuantileColorScale fl features property
          = Inr (scaleLinear [fst (extent (sort values)),
                   Fin (sort values ! nat \<lfloor>real ?n * (3 / 10)\<rfloor>),
                   snd (extent (sort values))] [colorLow, colorMid, colorHigh])"
    using cut
    by (simp add: createQuantileColorScale_def createDivergingColorScale_def
        assms(1) [symmetric] Let_def case_prod_beta)
  then have "\<exists>s. createQuantileColorScale fl features property = Inr s
           \<and> domain s ! 1 = Fin (sort values ! nat \<lfloor>real ?n * (3 / 10)\<rfloor>)"
    by (simp add: scaleLinear_def)
  with nat_idx lt md show ?thesis by blast
qed

theorem percentile_cutoff_witness:
  "filter_present (map (\<lambda>f. properties f ''population'') ten_basins) = [7, 2, 9, 4, 1, 10, 3, 8, 5, 6]
   \<and> sort [7, 2, 9, 4, 1, 10, 3, 8, 5, 6 :: real] = [1, 2, 3, 4, 5, 6, 7, 8, 9, 10]
   \<and> (3 * length [7, 2, 9, 4, 1, 10, 3, 8, 5, 6 :: real]) div 10 = 3
   \<and> length [7, 2, 9, 4, 1, 10, 3, 8, 5, 6 :: real] div 2 = 5
   \<and> (\<exists>s. createQuantileColorScale id ten_basins ''population'' = Inr s \<and> domain s ! 1 = Fin 4)"
proof -
  have v: "filter_present (map (\<lambda>f. properties f ''population'') ten_basins) = [7, 2, 9, 4, 1, 10, 3, 8, 5, 6]"
    by (simp add: ten_basins_def basin_def)
  have ne: "[7, 2, 9, 4, 1, 10, 3, 8, 5, 6 :: real] \<noteq> []" by simp
  have s: "sort [7, 2, 9, 4, 1, 10, 3, 8, 5, 6 :: real] = [1, 2, 3, 4, 5, 6, 7, 8, 9, 10]"
    by simp
  from percentile_cutoff_is_element_at_floor_index [where fl = id, OF v [symmetric] ne]
  obtain sc where sc: "createQuantileColorScale id ten_basins ''population'' = Inr sc"
    and "domain sc ! 1 = Fin (sort [7, 2, 9, 4, 1, 10, 3, 8, 5, 6] ! nat \<lfloor>real (length [7, 2, 9, 4, 1, 10, 3, 8, 5, 6 :: real]) * (3 / 10)\<rfloor>)"
    by blast
  then have "domain sc ! 1 = Fin 4"
    by (simp add: s)
  with sc have "\<exists>s. createQuantileColorScale id ten_basins ''population'' = Inr s \<and> domain s ! 1 = Fin 4"
    by blast
  moreover have "(3 * length [7, 2, 9, 4, 1, 10, 3, 8, 5, 6 :: real]) div 10 = 3" by simp
  moreover have "length [7, 2, 9, 4, 1, 10, 3, 8, 5, 6 :: real] div 2 = 5" by simp
  ultimately show ?thesis using v s by blast
qed

section \<open>Construction and the cutoff strategy\<close>

text \<open>
  Claim C7. The builder throws (\<open>Inl InvalidCutoffType\<close>) exactly when the strategy name is
  none of \<^verbatim>\<open>percentile\<close>, \<^verbatim>\<open>mean\<close> and \<^verbatim>\<open>fixed\<close>, and for each of these three names it
  returns a scale, whatever the collection (an empty one included), the property and the
  cutoff value.
\<close>

theorem invalid_cutoff_type_throws:
  "(createDivergingColorScale fl features property cutoffType cutoffValue = Inl InvalidCutoffType)
     = (cutoffType \<noteq> ''percentile'' \<and> cutoffType \<noteq> ''mean'' \<and> cutoffType \<noteq> ''fixed'')
   \<and> (\<exists>s. createDivergingColorScale fl features property cutoffType cutoffValue = Inr s)
     = (cutoffType = ''percentile'' \<or> cutoffType = ''mean'' \<or> cutoffType = ''fixed'')"
  by (simp add: createDivergingColorScale_def Let_def case_prod_beta)

theorem invalid_cutoff_type_witness:
  "createDivergingColorScale id ten_basins ''population'' ''median'' (1 / 2) = Inl InvalidCutoffType
   \<and> (\<exists>s. createDivergingColorScale id ten_basins ''population'' ''percentile'' (3 / 10) = Inr s)
   \<and> (\<exists>s. createDivergingColorScale id ten_basins ''population'' ''mean'' (3 / 10) = Inr s)
   \<and> (\<exists>s. createDivergingColorScale id ten_basins ''population'' ''fixed'' 5 = Inr s)
   \<and> (\<exists>s. createDivergingColorScale id [] ''population'' ''percentile'' (3 / 10) = Inr s)
   \<and> (\<exists>s. createDivergingColorScale id [] ''population'' ''mean'' (3 / 10) = Inr s)"
  using invalid_cutoff_type_throws [of id ten_basins "''population''" "''median''" "1 / 2"]
    invalid_cutoff_type_throws [of id ten_basins "''population''" "''percentile''" "3 / 10"]
    invalid_cutoff_type_throws [of id ten_basins "''population''" "''mean''" "3 / 10"]
    invalid_cutoff_type_throws [of id ten_basins "''population''" "''fixed''" 5]
    invalid_cutoff_type_throws [of id "[]" "''population''" "''percentile''" "3 / 10"]
    invalid_cutoff_type_throws [of id "[]" "''population''" "''mean''" "3 / 10"]
  by simp

section \<open>Missing values: zero in the chart, absent from the scale\<close>

lemma filter_present_filter:
  "map JNum (filter_present vs) = filter (\<lambda>v. v \<noteq> JNull \<and> v \<noteq> JUndefined) vs"
  by (induction vs rule: filter_present.induct) simp_all

lemma filter_present_append:
  "filter_present (us @ vs) = filter_present us @ filter_present vs"
  by (induction us rule: filter_present.induct) simp_all

lemma set_filter_present: "x \<in> set (filter_present vs) \<longleftrightarrow> JNum x \<in> set vs"
  by (induction vs rule: filter_present.induct) auto

lemma monthlyData_nth:
  assumes "i < 12"
  shows "monthlyData f ! i = or_zero (properties f (MONTHS ! i))"
proof -
  from assms have "i = 0 \<or> i = 1 \<or> i = 2 \<or> i = 3 \<or> i = 4 \<or> i = 5 \<or> i = 6
      \<or> i = 7 \<or> i = 8 \<or> i = 9 \<or> i = 10 \<or> i = 11" by arith
  then show ?thesis
    by (elim disjE) (simp_all add: monthlyData_def MONTHS_def)
qed
lemma BarChart_bars:
  assumes "BarChart features sel = Chart l bars"
  shows "\<exists>s f. sel = Some s \<and> s \<noteq> [] \<and> findBasin features s = Some f \<and> bars = monthlyData f
            \<and> l = ''Monthly Water Shortage for '' @ s"
  using assms by (auto simp: BarChart_def split: option.splits if_splits)

lemma findBasin_cases:
  assumes "findBasin features s = Some f"
  shows "f \<in> set features
         \<and> (RIVERBASIN f = s
            \<or> RIVERBASIN f = ''AMUR'' \<and> (\<forall>g\<in>set features. RIVERBASIN g \<noteq> s))"
proof (cases "find (\<lambda>item. RIVERBASIN item = s) features")
  case None
  with assms have a: "find (\<lambda>item. RIVERBASIN item = ''AMUR'') features = Some f"
    by (simp add: findBasin_def)
  from None have "\<forall>g\<in>set features. RIVERBASIN g \<noteq> s"
    by (auto simp: find_None_iff)
  moreover from a have "f \<in> set features \<and> RIVERBASIN f = ''AMUR''"
    by (auto simp: find_Some_iff)
  ultimately show ?thesis by blast
next
  case (Some h)
  with assms have "h = f" by (simp add: findBasin_def)
  with Some show ?thesis by (auto simp: find_Some_iff)
qed

lemma findBasin_unmatched:
  assumes "\<forall>g\<in>set features. RIVERBASIN g \<noteq> s"
  shows "findBasin features s = find (\<lambda>item. RIVERBASIN item = ''AMUR'') features"
proof -
  from assms have "find (\<lambda>item. RIVERBASIN item = s) features = None"
    by (auto simp: find_None_iff)
  then show ?thesis by (simp add: findBasin_def)
qed

text \<open>
  Claim C5. The monthly series of the chart always has twelve entries; a month whose
  field is absent or \<^verbatim>\<open>null\<close> contributes 0 at its index, a month with a number
  contributes that number. The values a scale is built from leave a feature without a
  value out: the value list, and with it the scale, is the same as if the feature were
  not in the collection, so no 0 stands in for it.
\<close>

theorem extraction_is_asymmetric:
  "length (monthlyData f) = 12
   \<and> (BarChart features selectedBasin = Chart l bars \<longrightarrow> length bars = 12)
   \<and> (i < 12 \<and> (properties f (MONTHS ! i) = JUndefined \<or> properties f (MONTHS ! i) = JNull)
        \<longrightarrow> monthlyData f ! i = 0)
   \<and> (i < 12 \<and> properties f (MONTHS ! i) = JNum x \<longrightarrow> monthlyData f ! i = x)
   \<and> (properties g property = JUndefined \<or> properties g property = JNull
        \<longrightarrow> filter_present (map (\<lambda>f. properties f property) (fs @ g # gs))
              = filter_present (map (\<lambda>f. properties f property) (fs @ gs))
          \<and> createDivergingColorScale fl (fs @ g # gs) property cutoffType cutoffValue
              = createDivergingColorScale fl (fs @ gs) property cutoffType cutoffValue)"
proof -
  have len: "length (monthlyData f) = 12" for f by (simp add: monthlyData_def)
  have bars: "length bars = 12" if "BarChart features selectedBasin = Chart l bars"
    using BarChart_bars [OF that] len by auto
  have zero: "monthlyData f ! i = 0"
    if "i < 12" "properties f (MONTHS ! i) = JUndefined \<or> properties f (MONTHS ! i) = JNull"
    using that monthlyData_nth [of i f] by auto
  have num: "monthlyData f ! i = x" if "i < 12" "properties f (MONTHS ! i) = JNum x"
    using that monthlyData_nth [of i f] by auto
  have excl: "filter_present (map (\<lambda>f. properties f property) (fs @ g # gs))
              = filter_present (map (\<lambda>f. properties f property) (fs @ gs))"
    if "properties g property = JUndefined \<or> properties g property = JNull"
    using that by (auto simp: filter_present_append)
  have same: "createDivergingColorScale fl (fs @ g # gs) property cutoffType cutoffValue
              = createDivergingColorScale fl (fs @ gs) property cutoffType cutoffValue"
    if "properties g property = JUndefined \<or> properties g property = JNull"
    unfolding createDivergingColorScale_def excl [OF that] ..
  from len bars zero num excl same show ?thesis by blast
qed

theorem extraction_is_asymmetric_witness:
  "MONTHS ! 6 = ''jul'' \<and> properties nile ''jul'' = JUndefined
   \<and> length (monthlyData nile) = 12 \<and> monthlyData nile ! 6 = 0
   \<and> filter_present (map (\<lambda>f. properties f ''jul'') [amur, nile, volga]) = [100]
   \<and> createDivergingColorScale id ([amur] @ nile # [volga]) ''jul'' ''percentile'' (3 / 10)
       = createDivergingColorScale id ([amur] @ [volga]) ''jul'' ''percentile'' (3 / 10)
   \<and> properties amur ''jul'' = JNum 100 \<and> monthlyData amur ! 6 = 100"
proof -
  have m: "MONTHS ! 6 = ''jul''" by (simp add: MONTHS_def)
  have u: "properties nile ''jul'' = JUndefined" by (simp add: nile_def basin_def)
  have a: "properties amur ''jul'' = JNum 100" by (simp add: amur_def basin_def)
  have v: "filter_present (map (\<lambda>f. properties f ''jul'') [amur, nile, volga]) = [100]"
    by (simp add: amur_def nile_def volga_def basin_def)
  show ?thesis
    using extraction_is_asymmetric [of nile sample None "[]" "[]" 6 0 nile "''jul''" "[amur]" "[volga]" id "''percentile''" "3 / 10"]
      extraction_is_asymmetric [of amur sample None "[]" "[]" 6 100 nile "''jul''" "[amur]" "[volga]" id "''percentile''" "3 / 10"]
      m u a v
    by simp
qed

section \<open>The selection in the bar chart and on the map\<close>

text \<open>
  Claim C9. Without a selection the bar chart renders the prompt, whatever the collection
  holds. Whenever a chart is rendered, the selection is a basin name and the bars are the
  monthly series of a feature of the collection: one of that name, or one named
  \<^verbatim>\<open>AMUR\<close> when no feature has the selected name.
\<close>

theorem no_selection_renders_prompt:
  "BarChart features None = SelectPrompt
   \<and> (BarChart features sel = Chart l bars \<longrightarrow>
        (\<exists>s f. sel = Some s \<and> f \<in> set features \<and> bars = monthlyData f
           \<and> (RIVERBASIN f = s
               \<or> RIVERBASIN f = ''AMUR'' \<and> (\<forall>g\<in>set features. RIVERBASIN g \<noteq> s))))"
proof -
  have "BarChart features None = SelectPrompt" by (simp add: BarChart_def)
  moreover have "\<exists>s f. sel = Some s \<and> f \<in> set features \<and> bars = monthlyData f
           \<and> (RIVERBASIN f = s
               \<or> RIVERBASIN f = ''AMUR'' \<and> (\<forall>g\<in>set features. RIVERBASIN g \<noteq> s))"
    if "BarChart features sel = Chart l bars"
  proof -
    from BarChart_bars [OF that] obtain s f where
      "sel = Some s" "findBasin features s = Some f" "bars = monthlyData f" by blast
    with findBasin_cases [of features s f] show ?thesis by blast
  qed
  ultimately show ?thesis by blast
qed

theorem no_selection_renders_prompt_witness:
  "BarChart sample None = SelectPrompt
   \<and> BarChart sample (Some ''GHOST'')
       = Chart ''Monthly Water Shortage for GHOST'' [0, 10, 20, 30, 40, 50, 100, 70, 60, 50, 20, 10]
   \<and> (\<exists>s f. Some ''GHOST'' = Some s \<and> f \<in> set sample
         \<and> [0, 10, 20, 30, 40, 50, 100, 70, 60, 50, 20, 10] = monthlyData f
         \<and> (RIVERBASIN f = s \<or> RIVERBASIN f = ''AMUR'' \<and> (\<forall>g\<in>set sample. RIVERBASIN g \<noteq> s)))"
proof -
  have c: "BarChart sample (Some ''GHOST'')
       = Chart ''Monthly Water Shortage for GHOST'' [0, 10, 20, 30, 40, 50, 100, 70, 60, 50, 20, 10]"
    by (simp add: BarChart_def findBasin_def sample_def amur_def nile_def volga_def danube_def
        basin_def monthlyData_def)
  from no_selection_renders_prompt
    [of sample "Some ''GHOST''" "''Monthly Water Shortage for GHOST''"
        "[0, 10, 20, 30, 40, 50, 100, 70, 60, 50, 20, 10]"] c
  show ?thesis by blast
qed

text \<open>
  Claim C4 says that every view falls back to the default basin when the selection names
  no feature. On the map no polygon is highlighted for the selection \<^verbatim>\<open>GHOST\<close>, the
  polygon of \<^verbatim>\<open>AMUR\<close> neither (it is highlighted when \<^verbatim>\<open>AMUR\<close> itself is selected); and
  in a collection without \<^verbatim>\<open>AMUR\<close> the bar chart renders the message that there is no
  data.
\<close>

theorem unmatched_selection_counterexample:
  "find (\<lambda>item. RIVERBASIN item = ''GHOST'') sample = None
   \<and> map (\<lambda>f. weight (geoJSONStyle (createFixedContinuousColorScale (Fin 0) (Fin 100)) ''jan'' f (Some ''GHOST'') False))
       sample = [2, 2, 2, 2]
   \<and> map (\<lambda>f. color (geoJSONStyle (createFixedContinuousColorScale (Fin 0) (Fin 100)) ''jan'' f (Some ''GHOST'') False))
       sample = [''white'', ''white'', ''white'', ''white'']
   \<and> weight (geoJSONStyle (createFixedContinuousColorScale (Fin 0) (Fin 100)) ''jan'' amur (Some ''AMUR'') False) = 5
   \<and> find (\<lambda>item. RIVERBASIN item = ''GHOST'') [nile, volga] = None
   \<and> BarChart [nile, volga] (Some ''GHOST'') = NoDataAvailable"
  by (simp add: geoJSONStyle_def sample_def amur_def nile_def volga_def danube_def basin_def
      BarChart_def findBasin_def)

text \<open>
  Claim C4, amended. For a non-empty selection that names no feature, the bar chart shows
  the monthly series of the first feature named \<^verbatim>\<open>AMUR\<close>, under a label built from the
  selected name, or the message that there is no data when the collection has no such
  feature; the map has no fallback: every polygon keeps the weight 2 and the white border
  of a polygon that is not selected.
\<close>

theorem unmatched_selection:
  assumes "s \<noteq> []" and "\<forall>g\<in>set features. RIVERBASIN g \<noteq> s"
  shows "BarChart features (Some s)
           = (case find (\<lambda>item. RIVERBASIN item = ''AMUR'') features of
                Some a \<Rightarrow> Chart (''Monthly Water Shortage for '' @ s) (monthlyData a)
              | None \<Rightarrow> NoDataAvailable)
         \<and> (\<forall>f\<in>set features.
               weight (geoJSONStyle colorScale property f (Some s) showRivers) = 2
               \<and> color (geoJSONStyle colorScale property f (Some s) showRivers) = ''white'')"
proof -
  have "BarChart features (Some s)
           = (case find (\<lambda>item. RIVERBASIN item = ''AMUR'') features of
                Some a \<Rightarrow> Chart (''Monthly Water Shortage for '' @ s) (monthlyData a)
              | None \<Rightarrow> NoDataAvailable)"
    using assms(1) by (simp add: BarChart_def findBasin_unmatched [OF assms(2)])
  moreover have "\<forall>f\<in>set features.
               weight (geoJSONStyle colorScale property f (Some s) showRivers) = 2
               \<and> color (geoJSONStyle colorScale property f (Some s) showRivers) = ''white''"
    using assms(2) by (simp add: geoJSONStyle_def Let_def)
  ultimately show ?thesis by blast
qed

theorem unmatched_selection_witness:
  "''GHOST'' \<noteq> [] \<and> map RIVERBASIN sample = [''AMUR'', ''NILE'', ''VOLGA'', ''DANUBE'']
   \<and> BarChart sample (Some ''GHOST'')
       = Chart ''Monthly Water Shortage for GHOST'' (monthlyData amur)
   \<and> map (\<lambda>f. weight (geoJSONStyle (createFixedContinuousColorScale (Fin 0) (Fin 100)) ''jan'' f (Some ''GHOST'') False))
       sample = [2, 2, 2, 2]
   \<and> map (\<lambda>f. color (geoJSONStyle (createFixedContinuousColorScale (Fin 0) (Fin 100)) ''jan'' f (Some ''GHOST'') False))
       sample = [''white'', ''white'', ''white'', ''white'']"
proof -
  have r: "map RIVERBASIN sample = [''AMUR'', ''NILE'', ''VOLGA'', ''DANUBE'']"
    by (simp add: sample_def amur_def nile_def volga_def danube_def basin_def)
  have "\<forall>n\<in>set (map RIVERBASIN sample). n \<noteq> ''GHOST''"
    unfolding r by simp
  then have n: "\<forall>g\<in>set sample. RIVERBASIN g \<noteq> ''GHOST''" by simp
  have a: "find (\<lambda>item. RIVERBASIN item = ''AMUR'') sample = Some amur"
    by (simp add: sample_def amur_def basin_def)
  have g: "''GHOST'' \<noteq> []" by simp
  from unmatched_selection [OF g n, of "createFixedContinuousColorScale (Fin 0) (Fin 100)" "''jan''" False]
  show ?thesis using r by (simp add: a sample_def)
qed

section \<open>The treemap hierarchy\<close>

lemma pushed_Some:
  assumes "pushed f = Some n"
  shows "properties f ''average'' \<noteq> JUndefined \<and> properties f ''population'' \<noteq> JUndefined
         \<and> node_id n = RIVERBASIN f \<and> continent n = CONTINENT f
         \<and> waterScarcity n = properties f ''average''
         \<and> population n = properties f ''population''
         \<and> node_value n = to_number (properties f ''average'') * to_number (properties f ''population'')"
  using assms by (auto simp: pushed_def Let_def split: if_splits)

lemma set_children:
  "set (children (calculateWaterScarcity features)) = {n. \<exists>f\<in>set features. pushed f = Some n}"
proof -
  have "set (List.map_filter pushed features) = {n. \<exists>f\<in>set features. pushed f = Some n}"
    by (induction features) (auto simp: map_filter_simps split: option.splits)
  then show ?thesis by (simp add: calculateWaterScarcity_def)
qed

lemma children_descending:
  "sorted_wrt (\<lambda>a b. node_value b \<le> node_value a) (children (calculateWaterScarcity features))"
proof -
  have "sorted (map (\<lambda>n. - node_value n) (children (calculateWaterScarcity features)))"
    by (simp add: calculateWaterScarcity_def)
  then show ?thesis by (simp add: sorted_map)
qed
lemma sample_children:
  "children (calculateWaterScarcity sample) =
     [\<lparr>node_id = ''NILE'', node_value = 24000000, population = JNum 3000000,
        waterScarcity = JNum 8, continent = ''Africa''\<rparr>,
      \<lparr>node_id = ''AMUR'', node_value = 5000000, population = JNum 1000000,
        waterScarcity = JNum 5, continent = ''Asia''\<rparr>,
      \<lparr>node_id = ''DANUBE'', node_value = 0, population = JNum 2000000,
        waterScarcity = JNull, continent = ''Europe''\<rparr>]"
  by (simp add: calculateWaterScarcity_def sample_def amur_def nile_def volga_def danube_def
      basin_def pushed_def map_filter_def)

text \<open>
  Claim C8. A feature whose population and average scarcity are numbers has a node in the
  hierarchy whose value is the product of the two (1,000,000 and 5 give 5,000,000); the
  value of every node is the product of its two fields; the nodes are in descending
  order of value, so the first one has the largest.
\<close>

theorem treemap_value_is_product_sorted_descending:
  "(f \<in> set features \<and> properties f ''population'' = JNum p \<and> properties f ''average'' = JNum a
      \<longrightarrow> (\<exists>n\<in>set (children (calculateWaterScarcity features)).
             node_id n = RIVERBASIN f \<and> node_value n = p * a
             \<and> population n = JNum p \<and> waterScarcity n = JNum a \<and> continent n = CONTINENT f))
   \<and> (\<forall>n\<in>set (children (calculateWaterScarcity features)).
         node_value n = to_number (population n) * to_number (waterScarcity n))
   \<and> sorted_wrt (\<lambda>a b. node_value b \<le> node_value a) (children (calculateWaterScarcity features))
   \<and> (\<forall>n\<in>set (children (calculateWaterScarcity features)).
         node_value n \<le> node_value (hd (children (calculateWaterScarcity features))))"
proof -
  let ?cs = "children (calculateWaterScarcity features)"
  have one: "\<exists>n\<in>set ?cs. node_id n = RIVERBASIN f \<and> node_value n = p * a
             \<and> population n = JNum p \<and> waterScarcity n = JNum a \<and> continent n = CONTINENT f"
    if "f \<in> set features" "properties f ''population'' = JNum p" "properties f ''average'' = JNum a"
  proof -
    from that(2,3) obtain n where n: "pushed f = Some n"
      by (auto simp: pushed_def Let_def)
    with that(1) have "n \<in> set ?cs" by (auto simp: set_children)
    with pushed_Some [OF n] that(2,3) show ?thesis by auto
  qed
  have prod: "\<forall>n\<in>set ?cs. node_value n = to_number (population n) * to_number (waterScarcity n)"
    using pushed_Some by (fastforce simp: set_children)
  have desc: "sorted_wrt (\<lambda>a b. node_value b \<le> node_value a) ?cs"
    by (rule children_descending)
  have first: "\<forall>n\<in>set ?cs. node_value n \<le> node_value (hd ?cs)"
  proof
    fix n assume n: "n \<in> set ?cs"
    then obtain c cs where cs: "?cs = c # cs" by (cases ?cs) auto
    with desc n show "node_value n \<le> node_value (hd ?cs)" by auto
  qed
  from one prod desc first show ?thesis by blast
qed
theorem treemap_value_witness:
  "amur \<in> set sample \<and> properties amur ''population'' = JNum 1000000
   \<and> properties amur ''average'' = JNum 5
   \<and> (\<exists>n\<in>set (children (calculateWaterScarcity sample)).
         node_id n = ''AMUR'' \<and> node_value n = 5000000)
   \<and> map node_value (children (calculateWaterScarcity sample)) = [24000000, 5000000, 0]
   \<and> sorted_wrt (\<lambda>a b. node_value b \<le> node_value a) (children (calculateWaterScarcity sample))"
proof -
  have a: "amur \<in> set sample" "properties amur ''population'' = JNum 1000000"
    "properties amur ''average'' = JNum 5" "RIVERBASIN amur = ''AMUR''"
    by (simp_all add: sample_def amur_def basin_def)
  from treemap_value_is_product_sorted_descending [of amur sample 1000000 5] a
  have "(\<exists>n\<in>set (children (calculateWaterScarcity sample)).
         node_id n = ''AMUR'' \<and> node_value n = 5000000)
     \<and> sorted_wrt (\<lambda>a b. node_value b \<le> node_value a) (children (calculateWaterScarcity sample))"
    by auto
  moreover have "map node_value (children (calculateWaterScarcity sample)) = [24000000, 5000000, 0]"
    by (simp add: sample_children)
  ultimately show ?thesis using a by blast
qed

text \<open>
  Claim C10 says that a feature missing its population or its average scarcity is left
  out of the hierarchy rather than included with a value of zero. The guard of the loop
  tests for \<^verbatim>\<open>undefined\<close> only. The basin \<^verbatim>\<open>DANUBE\<close> of the sample has a population and the
  average \<^verbatim>\<open>null\<close>: it passes the guard and its node carries the water scarcity \<^verbatim>\<open>null\<close>
  and the value 0, last of the three nodes. The value list of the colour scale for the
  same property leaves the basin out.
\<close>

theorem treemap_null_average_is_included:
  "properties danube ''average'' = JNull
   \<and> properties danube ''population'' = JNum 2000000
   \<and> pushed danube = Some \<lparr>node_id = ''DANUBE'', node_value = 0, population = JNum 2000000,
                             waterScarcity = JNull, continent = ''Europe''\<rparr>
   \<and> map node_id (children (calculateWaterScarcity sample)) = [''NILE'', ''AMUR'', ''DANUBE'']
   \<and> map node_value (children (calculateWaterScarcity sample)) = [24000000, 5000000, 0]
   \<and> map RIVERBASIN sample = [''AMUR'', ''NILE'', ''VOLGA'', ''DANUBE'']
   \<and> filter_present (map (\<lambda>f. properties f ''average'') sample) = [5, 8, 2]"
proof -
  have "pushed danube = Some \<lparr>node_id = ''DANUBE'', node_value = 0, population = JNum 2000000,
                             waterScarcity = JNull, continent = ''Europe''\<rparr>"
    by (simp add: pushed_def danube_def basin_def)
  moreover have "properties danube ''average'' = JNull \<and> properties danube ''population'' = JNum 2000000"
    by (simp add: danube_def basin_def)
  moreover have "map RIVERBASIN sample = [''AMUR'', ''NILE'', ''VOLGA'', ''DANUBE'']
    \<and> filter_present (map (\<lambda>f. properties f ''average'') sample) = [5, 8, 2]"
    by (simp add: sample_def amur_def nile_def volga_def danube_def basin_def)
  ultimately show ?thesis by (simp add: sample_children)
qed

section \<open>The colour function of a scale\<close>

text \<open>
  With three stops the bisection of \<^verbatim>\<open>polymap\<close> is a single comparison with the middle
  breakpoint: inputs from the cutoff upwards use the upper segment, all others the lower
  one, whether or not they lie inside the domain.
\<close>

lemma bisect_1_2: "bisect a x (Suc 0) (Suc (Suc 0)) = (if js_le (a ! Suc 0) x then 2 else 1)"
  by (subst bisect.simps, subst bisect.simps, subst bisect.simps) (simp add: Let_def)

lemma normalize_Fin:
  "normalize_d3 (Fin a) (Fin b) (Fin x) = (if b - a \<noteq> 0 then Fin ((x - a) / (b - a)) else Fin (1 / 2))"
  by (simp add: normalize_d3_def Let_def)

lemma polymap_three:
  assumes "lo \<le> hi"
  shows "polymap [Fin lo, Fin mid, Fin hi] [r0, r1, r2] (Fin x) =
           (if mid \<le> x then interpolateRgb r1 r2 (normalize_d3 (Fin mid) (Fin hi) (Fin x))
            else interpolateRgb r0 r1 (normalize_d3 (Fin lo) (Fin mid) (Fin x)))"
  using assms by (simp add: polymap_def Let_def bisect_1_2)

lemma scale_apply_three:
  assumes "lo \<le> hi"
  shows "scale_apply (scaleLinear [Fin lo, Fin mid, Fin hi] [r0, r1, r2]) x =
           (if mid \<le> x then interpolateRgb r1 r2 (normalize_d3 (Fin mid) (Fin hi) (Fin x))
            else interpolateRgb r0 r1 (normalize_d3 (Fin lo) (Fin mid) (Fin x)))"
  using polymap_three [OF assms] by (simp add: scale_apply_def scaleLinear_def Let_def)

lemma scale_apply_two:
  assumes "lo \<le> hi"
  shows "scale_apply (scaleLinear [Fin lo, Fin hi] [r0, r1]) x =
           interpolateRgb r0 r1 (normalize_d3 (Fin lo) (Fin hi) (Fin x))"
  using assms by (simp add: scale_apply_def scaleLinear_def Let_def bimap_def)

lemma interpolate_low_mid:
  "interpolateRgb colorLow colorMid (Fin t) =
     Rgb (clampi (Fin (44 + t * 211))) (clampi (Fin (123 + t * 132))) (clampi (Fin (182 + t * 9)))"
  by (simp add: interpolateRgb_def nogamma_def colorLow_def colorMid_def)

lemma interpolate_mid_high:
  "interpolateRgb colorMid colorHigh (Fin t) =
     Rgb (clampi (Fin (255 - t * 40))) (clampi (Fin (255 - t * 230))) (clampi (Fin (191 - t * 163)))"
  by (simp add: interpolateRgb_def nogamma_def colorHigh_def colorMid_def)

lemma clampi_mono: "a \<le> b \<Longrightarrow> clampi (Fin a) \<le> clampi (Fin b)"
proof -
  assume "a \<le> b"
  then have "\<lfloor>a + 1 / 2\<rfloor> \<le> \<lfloor>b + 1 / 2\<rfloor>" by (intro floor_mono) simp
  then show ?thesis by simp
qed

lemma low_mid_mono:
  assumes "t \<le> u"
  shows "red (interpolateRgb colorLow colorMid (Fin t)) \<le> red (interpolateRgb colorLow colorMid (Fin u))
       \<and> green (interpolateRgb colorLow colorMid (Fin t)) \<le> green (interpolateRgb colorLow colorMid (Fin u))
       \<and> blue (interpolateRgb colorLow colorMid (Fin t)) \<le> blue (interpolateRgb colorLow colorMid (Fin u))"
  unfolding interpolate_low_mid rgb.sel
  using assms by (intro conjI clampi_mono) simp_all

lemma mid_high_mono:
  assumes "t \<le> u"
  shows "red (interpolateRgb colorMid colorHigh (Fin u)) \<le> red (interpolateRgb colorMid colorHigh (Fin t))
       \<and> green (interpolateRgb colorMid colorHigh (Fin u)) \<le> green (interpolateRgb colorMid colorHigh (Fin t))
       \<and> blue (interpolateRgb colorMid colorHigh (Fin u)) \<le> blue (interpolateRgb colorMid colorHigh (Fin t))"
  unfolding interpolate_mid_high rgb.sel
  using assms by (intro conjI clampi_mono) simp_all

lemma interpolate_ends:
  "interpolateRgb colorLow colorMid (Fin 0) = colorLow"
  "interpolateRgb colorMid colorHigh (Fin 0) = colorMid"
  "interpolateRgb colorMid colorHigh (Fin 1) = colorHigh"
  "interpolateRgb colorLow colorMid (Fin 1) = colorMid"
  unfolding interpolate_low_mid interpolate_mid_high
  by (simp_all add: colorLow_def colorMid_def colorHigh_def)

lemma ten_basins_scale:
  "createQuantileColorScale fl ten_basins ''population''
     = Inr (scaleLinear [Fin 1, Fin 4, Fin 10] [colorLow, colorMid, colorHigh])"
  by (simp add: createQuantileColorScale_def createDivergingColorScale_def ten_basins_def
      basin_def index_number_def extent_def)

text \<open>
  Claim C2 says that an input strictly below \<^verbatim>\<open>minValue\<close> yields exactly \<^verbatim>\<open>colorLow\<close> and
  an input strictly above \<^verbatim>\<open>maxValue\<close> exactly \<^verbatim>\<open>colorHigh\<close>. The scale is built without
  \<^verbatim>\<open>.clamp(true)\<close>, so it extrapolates: over the populations 1 to 10 (breakpoints 1, 4
  and 10) the input 0 yields \<^verbatim>\<open>rgb(0, 79, 179)\<close> and the input 11 yields
  \<^verbatim>\<open>rgb(208, 0, 1)\<close>.
\<close>

theorem diverging_scale_clamp_counterexample:
  "createQuantileColorScale id ten_basins ''population''
     = Inr (scaleLinear [Fin 1, Fin 4, Fin 10] [colorLow, colorMid, colorHigh])
   \<and> scale_apply (scaleLinear [Fin 1, Fin 4, Fin 10] [colorLow, colorMid, colorHigh]) 0 = Rgb 0 79 179
   \<and> scale_apply (scaleLinear [Fin 1, Fin 4, Fin 10] [colorLow, colorMid, colorHigh]) 0 \<noteq> colorLow
   \<and> scale_apply (scaleLinear [Fin 1, Fin 4, Fin 10] [colorLow, colorMid, colorHigh]) 11 = Rgb 208 0 1
   \<and> scale_apply (scaleLinear [Fin 1, Fin 4, Fin 10] [colorLow, colorMid, colorHigh]) 11 \<noteq> colorHigh"
proof -
  have "scale_apply (scaleLinear [Fin 1, Fin 4, Fin 10] [colorLow, colorMid, colorHigh]) 0 = Rgb 0 79 179"
    by (simp add: scale_apply_three normalize_Fin interpolate_low_mid)
  moreover have "scale_apply (scaleLinear [Fin 1, Fin 4, Fin 10] [colorLow, colorMid, colorHigh]) 11 = Rgb 208 0 1"
    by (simp add: scale_apply_three normalize_Fin interpolate_mid_high)
  ultimately show ?thesis
    using ten_basins_scale by (simp add: colorLow_def colorHigh_def)
qed

lemma extent_nonempty:
  assumes "xs \<noteq> []"
  shows "extent xs = (Fin (Min (set xs)), Fin (Max (set xs)))"
    and "extent (sort xs) = (Fin (Min (set xs)), Fin (Max (set xs)))"
proof -
  show "extent xs = (Fin (Min (set xs)), Fin (Max (set xs)))"
    using assms by (simp add: extent_def Math_min_Fin Math_max_Fin)
  from assms have "sort xs \<noteq> []" by (metis length_0_conv length_sort)
  then show "extent (sort xs) = (Fin (Min (set xs)), Fin (Max (set xs)))"
    by (simp add: extent_def Math_min_Fin Math_max_Fin)
qed

lemma index_number_cases: "index_number xs i = NaN \<or> (\<exists>m. index_number xs i = Fin m)"
  by (simp add: index_number_def)

lemma create_domain:
  assumes "createDivergingColorScale fl features property cutoffType cutoffValue = Inr s"
    and "values = filter_present (map (\<lambda>f. properties f property) features)"
    and "values \<noteq> []"
  shows "\<exists>c. s = scaleLinear [Fin (Min (set values)), c, Fin (Max (set values))]
                  [colorLow, colorMid, colorHigh]
             \<and> (c = NaN \<or> (\<exists>mid. c = Fin mid))"
proof -
  note ext = extent_nonempty [OF assms(3)]
  from assms(1) consider (percentile) "cutoffType = ''percentile''"
    | (mean) "cutoffType = ''mean''" | (fixed) "cutoffType = ''fixed''"
    by (auto simp: createDivergingColorScale_def Let_def case_prod_beta split: if_splits)
  then show ?thesis
  proof cases
    case percentile
    with assms(1) have "s = scaleLinear [Fin (Min (set values)),
        index_number (sort values) \<lfloor>real (length (sort values)) * cutoffValue\<rfloor>,
        Fin (Max (set values))] [colorLow, colorMid, colorHigh]"
      by (simp add: createDivergingColorScale_def assms(2) [symmetric] ext Let_def)
    with index_number_cases show ?thesis by blast
  next
    case mean
    from assms(3) have "real (length values) \<noteq> 0" by simp
    then have "\<exists>m. js_round fl (js_div (Fin (foldl (\<lambda>sum v. fl (sum + v)) 0 values))
                      (Fin (real (length values)))) = Fin m"
      by simp
    then obtain m where "js_round fl (js_div (Fin (foldl (\<lambda>sum v. fl (sum + v)) 0 values))
                      (Fin (real (length values)))) = Fin m" ..
    with mean assms(1) have "s = scaleLinear [Fin (Min (set values)), Fin m,
        Fin (Max (set values))] [colorLow, colorMid, colorHigh]"
      by (simp add: createDivergingColorScale_def assms(2) [symmetric] ext Let_def)
    then show ?thesis by blast
  next
    case fixed
    with assms(1) have "s = scaleLinear [Fin (Min (set values)), Fin cutoffValue,
        Fin (Max (set values))] [colorLow, colorMid, colorHigh]"
      by (simp add: createDivergingColorScale_def assms(2) [symmetric] ext Let_def)
    then show ?thesis by blast
  qed
qed

lemma scale_apply_nan_cutoff:
  assumes "lo \<le> hi"
  shows "scale_apply (scaleLinear [Fin lo, NaN, Fin hi] [colorLow, colorMid, colorHigh]) x = Rgb 0 0 0"
proof -
  have "normalize_d3 (Fin lo) NaN (Fin x) = NaN" by (simp add: normalize_d3_def)
  moreover have "interpolateRgb colorLow colorMid NaN = Rgb 0 0 0"
    by (simp add: interpolateRgb_def nogamma_def colorLow_def colorMid_def)
  ultimately show ?thesis
    using assms by (simp add: scale_apply_def scaleLinear_def polymap_def Let_def bisect_1_2)
qed

lemma interpolate_halves:
  "interpolateRgb colorLow colorMid (Fin (1 / 2)) = Rgb 150 189 187"
  "interpolateRgb colorMid colorHigh (Fin (1 / 2)) = Rgb 235 140 110"
  unfolding interpolate_low_mid interpolate_mid_high by simp_all

lemma scale_apply_below:
  assumes "lo \<le> hi" "x < mid"
  shows "scale_apply (scaleLinear [Fin lo, Fin mid, Fin hi] [colorLow, colorMid, colorHigh]) x
           = interpolateRgb colorLow colorMid
               (Fin (if mid = lo then 1 / 2 else (x - lo) / (mid - lo)))"
  using assms(2) unfolding scale_apply_three [OF assms(1)] by (simp add: normalize_Fin)

lemma scale_apply_above:
  assumes "lo \<le> hi" "mid \<le> x"
  shows "scale_apply (scaleLinear [Fin lo, Fin mid, Fin hi] [colorLow, colorMid, colorHigh]) x
           = interpolateRgb colorMid colorHigh
               (Fin (if hi = mid then 1 / 2 else (x - mid) / (hi - mid)))"
  using assms(2) unfolding scale_apply_three [OF assms(1)] by (simp add: normalize_Fin)

lemma low_mid_le:
  "t \<le> u \<Longrightarrow> channels_le (interpolateRgb colorLow colorMid (Fin t))
                            (interpolateRgb colorLow colorMid (Fin u))"
  using low_mid_mono [of t u] by (simp add: channels_le_def)

lemma mid_high_le:
  "t \<le> u \<Longrightarrow> channels_le (interpolateRgb colorMid colorHigh (Fin u))
                            (interpolateRgb colorMid colorHigh (Fin t))"
  using mid_high_mono [of t u] by (simp add: channels_le_def)

lemma default_cutoff_within:
  assumes "values \<noteq> []"
  shows "\<exists>mid. index_number (sort values) \<lfloor>real (length (sort values)) * (3 / 10)\<rfloor> = Fin mid
           \<and> Min (set values) \<le> mid \<and> mid \<le> Max (set values)"
proof -
  let ?n = "length values"
  from assms have n: "0 < ?n" by simp
  note r = percentile_index_in_range [OF n]
  from r have i1: "0 \<le> \<lfloor>real ?n * (3 / 10)\<rfloor>" by blast
  from r have i2: "nat \<lfloor>real ?n * (3 / 10)\<rfloor> < length (sort values)" by simp linarith
  let ?m = "sort values ! nat \<lfloor>real ?n * (3 / 10)\<rfloor>"
  from i2 have "?m \<in> set (sort values)" by (rule nth_mem)
  then have "?m \<in> set values" by simp
  then have "Min (set values) \<le> ?m \<and> ?m \<le> Max (set values)" by simp
  moreover from r have "index_number (sort values) \<lfloor>real (length (sort values)) * (3 / 10)\<rfloor> = Fin ?m"
    by (simp add: index_number_def)
  ultimately show ?thesis by blast
qed

text \<open>
  Claim C2, amended. For a value set with at least two distinct values the scale has the
  breakpoints \<open>lo\<close>, cutoff, \<open>hi\<close> with \<open>lo < hi\<close> the least and the greatest value, and
  its colour function is defined for every real input. The cutoff is a number or \<^verbatim>\<open>NaN\<close>;
  with the default strategy it is a value of the set, so a number between \<open>lo\<close> and \<open>hi\<close>.
  With a cutoff \<open>mid\<close> that is a number, an input below the cutoff is mapped through the
  interpolation from \<^verbatim>\<open>colorLow\<close> to \<^verbatim>\<open>colorMid\<close> at \<open>t = (x - lo) / (mid - lo)\<close>, an input
  from the cutoff upwards through the interpolation from \<^verbatim>\<open>colorMid\<close> to \<^verbatim>\<open>colorHigh\<close> at
  \<open>t = (x - mid) / (hi - mid)\<close>, and a segment of width zero is read at \<open>t = 1/2\<close>. \<open>t\<close> is
  not clamped, so inputs outside the domain extrapolate. Each channel is linear in \<open>t\<close>,
  rounded to the nearest integer and kept within 0 .. 255, and so monotone on either
  side of the cutoff. \<open>lo\<close> yields \<^verbatim>\<open>colorLow\<close> when it is below the cutoff; when the cutoff
  is \<open>lo\<close> itself, \<open>lo\<close> yields \<^verbatim>\<open>colorMid\<close> and every input below it \<^verbatim>\<open>rgb(150, 189, 187)\<close>.
  The cutoff yields \<^verbatim>\<open>colorMid\<close> and \<open>hi\<close> yields \<^verbatim>\<open>colorHigh\<close> when the cutoff is below
  \<open>hi\<close>; when the cutoff is \<open>hi\<close> itself, every input from \<open>hi\<close> upwards yields
  \<^verbatim>\<open>rgb(235, 140, 110)\<close>. With the cutoff \<^verbatim>\<open>NaN\<close> every input yields \<^verbatim>\<open>rgb(0, 0, 0)\<close>.
\<close>

theorem diverging_scale_piecewise_linear_unclamped:
  assumes "createDivergingColorScale fl features property cutoffType cutoffValue = Inr s"
    and "values = filter_present (map (\<lambda>f. properties f property) features)"
    and "values \<noteq> []"
    and "lo = Min (set values)" and "hi = Max (set values)" and "lo < hi"
  shows "(\<exists>c. domain s = [Fin lo, c, Fin hi] \<and> (c = NaN \<or> (\<exists>mid. c = Fin mid)))
       \<and> (cutoffType = ''percentile'' \<and> cutoffValue = 3 / 10 \<longrightarrow>
            (\<exists>mid. domain s ! 1 = Fin mid \<and> lo \<le> mid \<and> mid \<le> hi))
       \<and> (domain s ! 1 = NaN \<longrightarrow> (\<forall>x. scale_apply s x = Rgb 0 0 0))
       \<and> (\<forall>mid. domain s ! 1 = Fin mid \<longrightarrow>
              (\<forall>x. x < mid \<longrightarrow>
                 scale_apply s x = interpolateRgb colorLow colorMid
                   (Fin (if mid = lo then 1 / 2 else (x - lo) / (mid - lo))))
            \<and> (\<forall>x. mid \<le> x \<longrightarrow>
                 scale_apply s x = interpolateRgb colorMid colorHigh
                   (Fin (if hi = mid then 1 / 2 else (x - mid) / (hi - mid))))
            \<and> (lo < mid \<longrightarrow> scale_apply s lo = colorLow)
            \<and> (mid = lo \<longrightarrow> scale_apply s lo = colorMid
                  \<and> (\<forall>x. x < lo \<longrightarrow> scale_apply s x = Rgb 150 189 187))
            \<and> (mid < hi \<longrightarrow> scale_apply s mid = colorMid \<and> scale_apply s hi = colorHigh)
            \<and> (mid = hi \<longrightarrow> (\<forall>x. hi \<le> x \<longrightarrow> scale_apply s x = Rgb 235 140 110))
            \<and> (\<forall>x y. x \<le> y \<and> y < mid \<longrightarrow>
                  (if lo \<le> mid then channels_le (scale_apply s x) (scale_apply s y)
                   else channels_le (scale_apply s y) (scale_apply s x)))
            \<and> (\<forall>x y. mid \<le> x \<and> x \<le> y \<longrightarrow>
                  (if mid \<le> hi then channels_le (scale_apply s y) (scale_apply s x)
                   else channels_le (scale_apply s x) (scale_apply s y))))
       \<and> (\<forall>t. interpolateRgb colorLow colorMid (Fin t)
              = Rgb (clampi (Fin (44 + t * 211))) (clampi (Fin (123 + t * 132)))
                  (clampi (Fin (182 + t * 9))))
       \<and> (\<forall>t. interpolateRgb colorMid colorHigh (Fin t)
              = Rgb (clampi (Fin (255 - t * 40))) (clampi (Fin (255 - t * 230)))
                  (clampi (Fin (191 - t * 163))))"
proof -
  from create_domain [OF assms(1,2,3)] assms(4,5)
  obtain c where s: "s = scaleLinear [Fin lo, c, Fin hi] [colorLow, colorMid, colorHigh]"
    and c: "c = NaN \<or> (\<exists>mid. c = Fin mid)"
    by auto
  from s have dom: "domain s = [Fin lo, c, Fin hi]" by (simp add: scaleLinear_def)
  then have cut: "domain s ! 1 = c" by simp
  from assms(6) have le: "lo \<le> hi" by simp
  have shape: "\<exists>c. domain s = [Fin lo, c, Fin hi] \<and> (c = NaN \<or> (\<exists>mid. c = Fin mid))"
    using dom c by blast
  have dflt: "\<exists>mid. domain s ! 1 = Fin mid \<and> lo \<le> mid \<and> mid \<le> hi"
    if "cutoffType = ''percentile'' \<and> cutoffValue = 3 / 10"
  proof -
    from that have ct: "cutoffType = ''percentile''" and cv: "cutoffValue = 3 / 10"
      by blast+
    from assms(1) have "createDivergingColorScale fl features property ''percentile'' (3 / 10) = Inr s"
      unfolding ct cv .
    then have "domain s ! 1
        = index_number (sort values) \<lfloor>real (length (sort values)) * (3 / 10)\<rfloor>"
      by (auto simp: createDivergingColorScale_def assms(2) [symmetric] Let_def case_prod_beta
          scaleLinear_def)
    with default_cutoff_within [OF assms(3)] assms(4,5) show ?thesis by auto
  qed
  have black: "\<forall>x. scale_apply s x = Rgb 0 0 0" if "domain s ! 1 = NaN"
    using that cut s scale_apply_nan_cutoff [OF le] by simp
  have inner:
     "(\<forall>x. x < mid \<longrightarrow>
                 scale_apply s x = interpolateRgb colorLow colorMid
                   (Fin (if mid = lo then 1 / 2 else (x - lo) / (mid - lo))))
            \<and> (\<forall>x. mid \<le> x \<longrightarrow>
                 scale_apply s x = interpolateRgb colorMid colorHigh
                   (Fin (if hi = mid then 1 / 2 else (x - mid) / (hi - mid))))
            \<and> (lo < mid \<longrightarrow> scale_apply s lo = colorLow)
            \<and> (mid = lo \<longrightarrow> scale_apply s lo = colorMid
                  \<and> (\<forall>x. x < lo \<longrightarrow> scale_apply s x = Rgb 150 189 187))
            \<and> (mid < hi \<longrightarrow> scale_apply s mid = colorMid \<and> scale_apply s hi = colorHigh)
            \<and> (mid = hi \<longrightarrow> (\<forall>x. hi \<le> x \<longrightarrow> scale_apply s x = Rgb 235 140 110))
            \<and> (\<forall>x y. x \<le> y \<and> y < mid \<longrightarrow>
                  (if lo \<le> mid then channels_le (scale_apply s x) (scale_apply s y)
                   else channels_le (scale_apply s y) (scale_apply s x)))
            \<and> (\<forall>x y. mid \<le> x \<and> x \<le> y \<longrightarrow>
                  (if mid \<le> hi then channels_le (scale_apply s y) (scale_apply s x)
                   else channels_le (scale_apply s x) (scale_apply s y)))"
    if m: "domain s ! 1 = Fin mid" for mid
  proof -
    from m cut s have s': "s = scaleLinear [Fin lo, Fin mid, Fin hi] [colorLow, colorMid, colorHigh]"
      by simp
    have below: "scale_apply s x = interpolateRgb colorLow colorMid
                   (Fin (if mid = lo then 1 / 2 else (x - lo) / (mid - lo)))" if "x < mid" for x
      unfolding s' by (rule scale_apply_below [OF le that])
    have above: "scale_apply s x = interpolateRgb colorMid colorHigh
                   (Fin (if hi = mid then 1 / 2 else (x - mid) / (hi - mid)))" if "mid \<le> x" for x
      unfolding s' by (rule scale_apply_above [OF le that])
    have at_lo: "scale_apply s lo = colorLow" if "lo < mid"
      using below [OF that] that by (simp add: interpolate_ends)
    have lo_eq: "scale_apply s lo = colorMid \<and> (\<forall>x. x < lo \<longrightarrow> scale_apply s x = Rgb 150 189 187)"
      if "mid = lo"
    proof -
      from that assms(6) have "mid \<le> lo" "hi \<noteq> mid" by simp_all
      with above [of lo] that have "scale_apply s lo = colorMid"
        by (simp add: interpolate_ends)
      moreover have "scale_apply s x = Rgb 150 189 187" if "x < lo" for x
        using below [of x] that \<open>mid = lo\<close> by (simp add: interpolate_halves)
      ultimately show ?thesis by blast
    qed
    have at_mid_hi: "scale_apply s mid = colorMid \<and> scale_apply s hi = colorHigh" if "mid < hi"
    proof -
      from that have "scale_apply s mid = colorMid"
        using above [of mid] by (simp add: interpolate_ends)
      moreover from that have "scale_apply s hi = colorHigh"
        using above [of hi] by (simp add: interpolate_ends)
      ultimately show ?thesis by blast
    qed
    have hi_eq: "\<forall>x. hi \<le> x \<longrightarrow> scale_apply s x = Rgb 235 140 110" if "mid = hi"
      using above that by (simp add: interpolate_halves)
    have mono_below: "if lo \<le> mid then channels_le (scale_apply s x) (scale_apply s y)
                   else channels_le (scale_apply s y) (scale_apply s x)"
      if xy: "x \<le> y" "y < mid" for x y
    proof -
      from xy have x: "x < mid" by simp
      consider (eq) "mid = lo" | (gt) "lo < mid" | (lt) "mid < lo" by linarith
      then show ?thesis
      proof cases
        case eq
        then show ?thesis
          using below [OF x] below [OF xy(2)] by (simp add: channels_le_def)
      next
        case gt
        with xy have "(x - lo) / (mid - lo) \<le> (y - lo) / (mid - lo)"
          by (simp add: divide_right_mono)
        from low_mid_le [OF this] gt show ?thesis
          using below [OF x] below [OF xy(2)] by simp
      next
        case lt
        with xy have "(y - lo) / (mid - lo) \<le> (x - lo) / (mid - lo)"
          by (simp add: divide_right_mono_neg)
        from low_mid_le [OF this] lt show ?thesis
          using below [OF x] below [OF xy(2)] by simp
      qed
    qed
    have mono_above: "if mid \<le> hi then channels_le (scale_apply s y) (scale_apply s x)
                   else channels_le (scale_apply s x) (scale_apply s y)"
      if xy: "mid \<le> x" "x \<le> y" for x y
    proof -
      from xy have y: "mid \<le> y" by simp
      consider (eq) "hi = mid" | (gt) "mid < hi" | (lt) "hi < mid" by linarith
      then show ?thesis
      proof cases
        case eq
        then show ?thesis
          using above [OF xy(1)] above [OF y] by (simp add: channels_le_def)
      next
        case gt
        with xy have "(x - mid) / (hi - mid) \<le> (y - mid) / (hi - mid)"
          by (simp add: divide_right_mono)
        from mid_high_le [OF this] gt show ?thesis
          using above [OF xy(1)] above [OF y] by simp
      next
        case lt
        with xy have "(y - mid) / (hi - mid) \<le> (x - mid) / (hi - mid)"
          by (simp add: divide_right_mono_neg)
        from mid_high_le [OF this] lt show ?thesis
          using above [OF xy(1)] above [OF y] by simp
      qed
    qed
    from below above at_lo lo_eq at_mid_hi hi_eq mono_below mono_above
    show ?thesis by blast
  qed
  from shape dflt black inner interpolate_low_mid interpolate_mid_high
  show ?thesis by blast
qed

lemma sample_average_scale:
  "createQuantileColorScale fl sample ''average''
     = Inr (scaleLinear [Fin 2, Fin 2, Fin 8] [colorLow, colorMid, colorHigh])"
  by (simp add: createQuantileColorScale_def createDivergingColorScale_def sample_def amur_def
      nile_def volga_def danube_def basin_def index_number_def extent_def)

theorem diverging_scale_witness:
  "[5, 8, 2] = filter_present (map (\<lambda>f. properties f ''average'') sample)
   \<and> createDivergingColorScale id sample ''average'' ''percentile'' (3 / 10)
       = Inr (scaleLinear [Fin 2, Fin 2, Fin 8] [colorLow, colorMid, colorHigh])
   \<and> scale_apply (scaleLinear [Fin 2, Fin 2, Fin 8] [colorLow, colorMid, colorHigh]) 2 = colorMid
   \<and> scale_apply (scaleLinear [Fin 2, Fin 2, Fin 8] [colorLow, colorMid, colorHigh]) 1 = Rgb 150 189 187
   \<and> scale_apply (scaleLinear [Fin 2, Fin 2, Fin 8] [colorLow, colorMid, colorHigh]) 8 = colorHigh
   \<and> [7, 2, 9, 4, 1, 10, 3, 8, 5, 6] = filter_present (map (\<lambda>f. properties f ''population'') ten_basins)
   \<and> createDivergingColorScale id ten_basins ''population'' ''percentile'' (3 / 10)
       = Inr (scaleLinear [Fin 1, Fin 4, Fin 10] [colorLow, colorMid, colorHigh])
   \<and> scale_apply (scaleLinear [Fin 1, Fin 4, Fin 10] [colorLow, colorMid, colorHigh]) 1 = colorLow
   \<and> scale_apply (scaleLinear [Fin 1, Fin 4, Fin 10] [colorLow, colorMid, colorHigh]) 4 = colorMid
   \<and> scale_apply (scaleLinear [Fin 1, Fin 4, Fin 10] [colorLow, colorMid, colorHigh]) 10 = colorHigh
   \<and> scale_apply (scaleLinear [Fin 1, Fin 4, Fin 10] [colorLow, colorMid, colorHigh]) 0
       = interpolateRgb colorLow colorMid (Fin (- 1 / 3))"
proof -
  let ?S = "scaleLinear [Fin 2, Fin 2, Fin 8] [colorLow, colorMid, colorHigh]"
  let ?T = "scaleLinear [Fin 1, Fin 4, Fin 10] [colorLow, colorMid, colorHigh]"
  have cS: "createDivergingColorScale id sample ''average'' ''percentile'' (3 / 10) = Inr ?S"
    using sample_average_scale [of id] by (simp add: createQuantileColorScale_def)
  have vS: "[5, 8, 2] = filter_present (map (\<lambda>f. properties f ''average'') sample)"
    by (simp add: sample_def amur_def nile_def volga_def danube_def basin_def)
  have nS: "[5, 8, 2 :: real] \<noteq> []" by simp
  have loS: "(2::real) = Min (set [5, 8, 2])" and hiS: "(8::real) = Max (set [5, 8, 2])"
    by simp_all
  have ltS: "(2::real) < 8" by simp
  have dS: "domain ?S ! 1 = Fin 2" by (simp add: scaleLinear_def)
  note S = diverging_scale_piecewise_linear_unclamped [OF cS vS nS loS hiS ltS]
  note innerS = S [THEN conjunct2, THEN conjunct2, THEN conjunct2, THEN conjunct1, rule_format, OF dS]
  from innerS have "(2::real) = 2 \<longrightarrow> scale_apply ?S 2 = colorMid
      \<and> (\<forall>x. x < 2 \<longrightarrow> scale_apply ?S x = Rgb 150 189 187)"
    by blast
  then have S2: "scale_apply ?S 2 = colorMid" and S1: "scale_apply ?S 1 = Rgb 150 189 187"
    by simp_all
  from innerS have "(2::real) < 8 \<longrightarrow> scale_apply ?S 2 = colorMid \<and> scale_apply ?S 8 = colorHigh"
    by blast
  then have S8: "scale_apply ?S 8 = colorHigh" by simp
  have cT: "createDivergingColorScale id ten_basins ''population'' ''percentile'' (3 / 10) = Inr ?T"
    using ten_basins_scale [of id] by (simp add: createQuantileColorScale_def)
  have vT: "[7, 2, 9, 4, 1, 10, 3, 8, 5, 6]
              = filter_present (map (\<lambda>f. properties f ''population'') ten_basins)"
    by (simp add: ten_basins_def basin_def)
  have nT: "[7, 2, 9, 4, 1, 10, 3, 8, 5, 6 :: real] \<noteq> []" by simp
  have loT: "(1::real) = Min (set [7, 2, 9, 4, 1, 10, 3, 8, 5, 6])"
    and hiT: "(10::real) = Max (set [7, 2, 9, 4, 1, 10, 3, 8, 5, 6])"
    by simp_all
  have ltT: "(1::real) < 10" by simp
  have dT: "domain ?T ! 1 = Fin 4" by (simp add: scaleLinear_def)
  note T = diverging_scale_piecewise_linear_unclamped [OF cT vT nT loT hiT ltT]
  note innerT = T [THEN conjunct2, THEN conjunct2, THEN conjunct2, THEN conjunct1, rule_format, OF dT]
  from innerT have "(1::real) < 4 \<longrightarrow> scale_apply ?T 1 = colorLow" by blast
  then have T1: "scale_apply ?T 1 = colorLow" by simp
  from innerT have "(4::real) < 10 \<longrightarrow> scale_apply ?T 4 = colorMid \<and> scale_apply ?T 10 = colorHigh"
    by blast
  then have T4: "scale_apply ?T 4 = colorMid" and T10: "scale_apply ?T 10 = colorHigh"
    by simp_all
  from innerT have "\<forall>x. x < 4 \<longrightarrow> scale_apply ?T x = interpolateRgb colorLow colorMid
                   (Fin (if (4::real) = 1 then 1 / 2 else (x - 1) / (4 - 1)))"
    by blast
  then have T0: "scale_apply ?T 0 = interpolateRgb colorLow colorMid (Fin (- 1 / 3))"
    by simp
  from vS cS S2 S1 S8 vT cT T1 T4 T10 T0 show ?thesis by blast
qed

section \<open>A single distinct value\<close>

lemma single_value_replicate:
  assumes "set xs = {v}"
  shows "xs = replicate (length xs) v \<and> 0 < length xs"
proof -
  from assms have "\<forall>x\<in>set xs. x = v" by simp
  then have "xs = replicate (length xs) v" by (simp add: replicate_length_same)
  moreover from assms have "xs \<noteq> []" by auto
  ultimately show ?thesis by simp
qed

lemma floor_fraction_in_range:
  assumes "0 < n" "0 \<le> p" "p < 1"
  shows "0 \<le> \<lfloor>real n * p\<rfloor> \<and> \<lfloor>real n * p\<rfloor> < int n"
proof -
  from assms have "0 \<le> real n * p" by simp
  then have a: "0 \<le> \<lfloor>real n * p\<rfloor>" by simp
  from assms have "real n * p < real n * 1" by (intro mult_strict_left_mono) simp_all
  then have "real n * p < real_of_int (int n)" by simp
  then have "\<lfloor>real n * p\<rfloor> < int n" by (simp only: floor_less_iff)
  with a show ?thesis by simp
qed

lemma single_value_domain:
  assumes "values = filter_present (map (\<lambda>f. properties f property) features)"
    and "set values = {v}"
    and "cutoffType = ''percentile'' \<and> 0 \<le> cutoffValue \<and> cutoffValue < 1
         \<or> cutoffType = ''fixed'' \<and> cutoffValue = v"
  shows "createDivergingColorScale fl features property cutoffType cutoffValue
           = Inr (scaleLinear [Fin v, Fin v, Fin v] [colorLow, colorMid, colorHigh])"
proof -
  let ?n = "length values"
  from single_value_replicate [OF assms(2)] have rep: "values = replicate ?n v" and n: "0 < ?n"
    by simp_all
  have srt: "sort values = values"
    by (subst rep, subst rep) (simp add: sorted_sort_id)
  from assms(2) have ne: "values \<noteq> []" by auto
  from extent_nonempty(1) [OF ne] assms(2) have ext: "extent values = (Fin v, Fin v)" by simp
  from assms(3) consider
    (percentile) "cutoffType = ''percentile''" "0 \<le> cutoffValue" "cutoffValue < 1"
    | (fixed) "cutoffType = ''fixed''" "cutoffValue = v"
    by blast
  then show ?thesis
  proof cases
    case percentile
    note fr = floor_fraction_in_range [OF n percentile(2,3)]
    from fr have i1: "0 \<le> \<lfloor>real ?n * cutoffValue\<rfloor>" by blast
    from fr have i2: "nat \<lfloor>real ?n * cutoffValue\<rfloor> < ?n" by linarith
    have "values ! nat \<lfloor>real ?n * cutoffValue\<rfloor> = v"
      using i2 by (subst rep) simp
    with i1 i2 have "index_number values \<lfloor>real ?n * cutoffValue\<rfloor> = Fin v"
      by (simp add: index_number_def)
    with percentile(1) show ?thesis
      by (simp add: createDivergingColorScale_def assms(1) [symmetric] srt ext Let_def)
  next
    case fixed
    then show ?thesis
      by (simp add: createDivergingColorScale_def assms(1) [symmetric] ext Let_def)
  qed
qed

lemma degenerate_scale:
  "scale_apply (scaleLinear [Fin v, Fin v, Fin v] [colorLow, colorMid, colorHigh]) x
     = (if v \<le> x then Rgb 235 140 110 else Rgb 150 189 187)"
  by (simp add: scale_apply_three normalize_Fin interpolate_halves)

lemma colours_differ:
  "colorLow \<noteq> colorMid" "colorHigh \<noteq> colorMid" "Rgb 0 0 0 \<noteq> colorMid"
  "Rgb 235 140 110 \<noteq> colorMid" "Rgb 150 189 187 \<noteq> colorMid"
  by (simp_all add: colorLow_def colorMid_def colorHigh_def)

lemma equal_basins_fixed:
  "createDivergingColorScale fl equal_basins ''population'' ''fixed'' c
     = Inr (scaleLinear [Fin 5, Fin c, Fin 5] [colorLow, colorMid, colorHigh])"
  by (simp add: createDivergingColorScale_def equal_basins_def basin_def extent_def)

text \<open>
  Claim C3 says that with one distinct value every input maps to \<^verbatim>\<open>colorMid\<close>. For three
  basins of population 5 the breakpoints are 5, 5 and 5; the input 5 yields
  \<^verbatim>\<open>rgb(235, 140, 110)\<close> and the input 4 yields \<^verbatim>\<open>rgb(150, 189, 187)\<close>.
\<close>

theorem single_value_counterexample:
  "filter_present (map (\<lambda>f. properties f ''population'') equal_basins) = [5, 5, 5]
   \<and> createQuantileColorScale id equal_basins ''population''
       = Inr (scaleLinear [Fin 5, Fin 5, Fin 5] [colorLow, colorMid, colorHigh])
   \<and> scale_apply (scaleLinear [Fin 5, Fin 5, Fin 5] [colorLow, colorMid, colorHigh]) 5 = Rgb 235 140 110
   \<and> scale_apply (scaleLinear [Fin 5, Fin 5, Fin 5] [colorLow, colorMid, colorHigh]) 5 \<noteq> colorMid
   \<and> scale_apply (scaleLinear [Fin 5, Fin 5, Fin 5] [colorLow, colorMid, colorHigh]) 4 = Rgb 150 189 187
   \<and> scale_apply (scaleLinear [Fin 5, Fin 5, Fin 5] [colorLow, colorMid, colorHigh]) 4 \<noteq> colorMid"
proof -
  have "filter_present (map (\<lambda>f. properties f ''population'') equal_basins) = [5, 5, 5]"
    by (simp add: equal_basins_def basin_def)
  moreover have "createQuantileColorScale id equal_basins ''population''
       = Inr (scaleLinear [Fin 5, Fin 5, Fin 5] [colorLow, colorMid, colorHigh])"
    by (simp add: createQuantileColorScale_def createDivergingColorScale_def equal_basins_def
        basin_def index_number_def extent_def)
  ultimately show ?thesis
    unfolding degenerate_scale by (simp add: colorMid_def)
qed

text \<open>
  Claim C3, amended. For a value set with exactly one distinct value \<open>v\<close> the builder
  returns, for each of the three strategies, a scale with the breakpoints \<open>v\<close>, cutoff,
  \<open>v\<close>. The builder has no guard of its own for this case; the library reads a segment of
  width zero at \<open>t = 1/2\<close>, so nothing is divided by zero. When the cutoff is \<open>v\<close> (the
  percentile strategy with a fraction in \<open>[0, 1)\<close>, or the fixed cutoff \<open>v\<close>) every input
  from \<open>v\<close> upwards maps to the colour halfway between \<^verbatim>\<open>colorMid\<close> and \<^verbatim>\<open>colorHigh\<close>, every
  input below \<open>v\<close> to the colour halfway between \<^verbatim>\<open>colorLow\<close> and \<^verbatim>\<open>colorMid\<close>, and no input
  to \<^verbatim>\<open>colorMid\<close>. When the cutoff is another number (a fixed cutoff, or a mean that
  rounding has moved off \<open>v\<close>), \<open>v\<close> maps to \<^verbatim>\<open>colorLow\<close> if it is below the cutoff and to
  \<^verbatim>\<open>colorHigh\<close> if it is above. When the cutoff is \<^verbatim>\<open>NaN\<close> every input maps to
  \<^verbatim>\<open>rgb(0, 0, 0)\<close>. In no case does \<open>v\<close> map to \<^verbatim>\<open>colorMid\<close>.
\<close>

theorem single_value_scale_is_two_coloured:
  assumes "values = filter_present (map (\<lambda>f. properties f property) features)"
    and "set values = {v}"
    and "cutoffType = ''percentile'' \<or> cutoffType = ''mean'' \<or> cutoffType = ''fixed''"
  shows "\<exists>s c. createDivergingColorScale fl features property cutoffType cutoffValue = Inr s
           \<and> domain s = [Fin v, c, Fin v]
           \<and> (c = NaN \<or> (\<exists>m. c = Fin m))
           \<and> (cutoffType = ''percentile'' \<and> 0 \<le> cutoffValue \<and> cutoffValue < 1
                \<or> cutoffType = ''fixed'' \<and> cutoffValue = v \<longrightarrow> c = Fin v)
           \<and> (c = Fin v \<longrightarrow>
                (\<forall>x. scale_apply s x = (if v \<le> x then Rgb 235 140 110 else Rgb 150 189 187))
                \<and> (\<forall>x. scale_apply s x \<noteq> colorMid))
           \<and> (\<forall>m. c = Fin m \<and> v < m \<longrightarrow> scale_apply s v = colorLow)
           \<and> (\<forall>m. c = Fin m \<and> m < v \<longrightarrow> scale_apply s v = colorHigh)
           \<and> (c = NaN \<longrightarrow> (\<forall>x. scale_apply s x = Rgb 0 0 0))
           \<and> scale_apply s v \<noteq> colorMid
           \<and> Rgb 235 140 110 = interpolateRgb colorMid colorHigh (Fin (1 / 2))
           \<and> Rgb 150 189 187 = interpolateRgb colorLow colorMid (Fin (1 / 2))"
proof -
  from assms(3) obtain s where
    cr: "createDivergingColorScale fl features property cutoffType cutoffValue = Inr s"
    by (auto simp: createDivergingColorScale_def Let_def case_prod_beta)
  from assms(2) have ne: "values \<noteq> []" by auto
  from create_domain [OF cr assms(1) ne] assms(2)
  obtain c where s: "s = scaleLinear [Fin v, c, Fin v] [colorLow, colorMid, colorHigh]"
    and c: "c = NaN \<or> (\<exists>m. c = Fin m)"
    by auto
  from s have dom: "domain s = [Fin v, c, Fin v]" by (simp add: scaleLinear_def)
  have eqv: "c = Fin v"
    if "cutoffType = ''percentile'' \<and> 0 \<le> cutoffValue \<and> cutoffValue < 1
         \<or> cutoffType = ''fixed'' \<and> cutoffValue = v"
  proof -
    from single_value_domain [OF assms(1,2) that, of fl] cr
    have "s = scaleLinear [Fin v, Fin v, Fin v] [colorLow, colorMid, colorHigh]" by simp
    with dom show ?thesis by (simp add: scaleLinear_def)
  qed
  have two: "(\<forall>x. scale_apply s x = (if v \<le> x then Rgb 235 140 110 else Rgb 150 189 187))
                \<and> (\<forall>x. scale_apply s x \<noteq> colorMid)" if "c = Fin v"
    using that unfolding s by (simp add: degenerate_scale colours_differ)
  have low: "scale_apply s v = colorLow" if "c = Fin m \<and> v < m" for m
  proof -
    from that have "c = Fin m" "v < m" by simp_all
    with scale_apply_below [of v v v m] show ?thesis
      unfolding s by (simp add: interpolate_ends)
  qed
  have high: "scale_apply s v = colorHigh" if "c = Fin m \<and> m < v" for m
  proof -
    from that have "c = Fin m" "m < v" by simp_all
    with scale_apply_above [of v v m v] show ?thesis
      unfolding s by (simp add: interpolate_ends)
  qed
  have black: "\<forall>x. scale_apply s x = Rgb 0 0 0" if "c = NaN"
    using that scale_apply_nan_cutoff [of v v] unfolding s by simp
  have never: "scale_apply s v \<noteq> colorMid"
  proof -
    from c consider (nan) "c = NaN" | (fin) m where "c = Fin m" by blast
    then show ?thesis
    proof cases
      case nan
      with black show ?thesis by (simp add: colours_differ)
    next
      case (fin m)
      consider "m = v" | "v < m" | "m < v" by linarith
      then show ?thesis
      proof cases
        case 1
        with fin two show ?thesis by blast
      next
        case 2
        with fin low [of m] show ?thesis by (simp add: colours_differ)
      next
        case 3
        with fin high [of m] show ?thesis by (simp add: colours_differ)
      qed
    qed
  qed
  from cr dom c eqv two low high black never interpolate_halves [symmetric]
  show ?thesis by blast
qed

theorem single_value_witness:
  "[5, 5, 5] = filter_present (map (\<lambda>f. properties f ''population'') equal_basins)
   \<and> set [5, 5, 5 :: real] = {5}
   \<and> createDivergingColorScale id equal_basins ''population'' ''percentile'' (3 / 10)
       = Inr (scaleLinear [Fin 5, Fin 5, Fin 5] [colorLow, colorMid, colorHigh])
   \<and> scale_apply (scaleLinear [Fin 5, Fin 5, Fin 5] [colorLow, colorMid, colorHigh]) 5 = Rgb 235 140 110
   \<and> scale_apply (scaleLinear [Fin 5, Fin 5, Fin 5] [colorLow, colorMid, colorHigh]) 4 = Rgb 150 189 187
   \<and> createDivergingColorScale id equal_basins ''population'' ''fixed'' 7
       = Inr (scaleLinear [Fin 5, Fin 7, Fin 5] [colorLow, colorMid, colorHigh])
   \<and> scale_apply (scaleLinear [Fin 5, Fin 7, Fin 5] [colorLow, colorMid, colorHigh]) 5 = colorLow
   \<and> createDivergingColorScale id equal_basins ''population'' ''fixed'' 3
       = Inr (scaleLinear [Fin 5, Fin 3, Fin 5] [colorLow, colorMid, colorHigh])
   \<and> scale_apply (scaleLinear [Fin 5, Fin 3, Fin 5] [colorLow, colorMid, colorHigh]) 5 = colorHigh"
proof -
  have v: "[5, 5, 5] = filter_present (map (\<lambda>f. properties f ''population'') equal_basins)"
    by (simp add: equal_basins_def basin_def)
  have st: "set [5, 5, 5 :: real] = {5}" by simp
  have cp: "createDivergingColorScale id equal_basins ''population'' ''percentile'' (3 / 10)
       = Inr (scaleLinear [Fin 5, Fin 5, Fin 5] [colorLow, colorMid, colorHigh])"
    by (simp add: createDivergingColorScale_def equal_basins_def basin_def index_number_def
        extent_def)
  have c7: "createDivergingColorScale id equal_basins ''population'' ''fixed'' 7
       = Inr (scaleLinear [Fin 5, Fin 7, Fin 5] [colorLow, colorMid, colorHigh])"
    by (rule equal_basins_fixed)
  have c3: "createDivergingColorScale id equal_basins ''population'' ''fixed'' 3
       = Inr (scaleLinear [Fin 5, Fin 3, Fin 5] [colorLow, colorMid, colorHigh])"
    by (rule equal_basins_fixed)
  have tp: "''percentile'' = ''percentile'' \<or> ''percentile'' = ''mean'' \<or> ''percentile'' = ''fixed''"
    by simp
  have tf: "''fixed'' = ''percentile'' \<or> ''fixed'' = ''mean'' \<or> ''fixed'' = ''fixed''"
    by simp
  from single_value_scale_is_two_coloured [where fl = id and cutoffValue = "3 / 10", OF v st tp]
  obtain s c where "createDivergingColorScale id equal_basins ''population'' ''percentile'' (3 / 10) = Inr s"
    and "domain s = [Fin 5, c, Fin 5]"
    and "c = Fin 5 \<longrightarrow>
           (\<forall>x. scale_apply s x = (if 5 \<le> x then Rgb 235 140 110 else Rgb 150 189 187))"
    by blast
  with cp have p: "\<forall>x. scale_apply (scaleLinear [Fin 5, Fin 5, Fin 5] [colorLow, colorMid, colorHigh]) x
        = (if 5 \<le> x then Rgb 235 140 110 else Rgb 150 189 187)"
    by (auto simp: scaleLinear_def)
  from single_value_scale_is_two_coloured [where fl = id and cutoffValue = 7, OF v st tf]
  obtain s c where "createDivergingColorScale id equal_basins ''population'' ''fixed'' 7 = Inr s"
    and "domain s = [Fin 5, c, Fin 5]"
    and "\<forall>m. c = Fin m \<and> 5 < m \<longrightarrow> scale_apply s 5 = colorLow"
    by blast
  with c7 have f7: "scale_apply (scaleLinear [Fin 5, Fin 7, Fin 5] [colorLow, colorMid, colorHigh]) 5 = colorLow"
    by (auto simp: scaleLinear_def)
  from single_value_scale_is_two_coloured [where fl = id and cutoffValue = 3, OF v st tf]
  obtain s c where "createDivergingColorScale id equal_basins ''population'' ''fixed'' 3 = Inr s"
    and "domain s = [Fin 5, c, Fin 5]"
    and "\<forall>m. c = Fin m \<and> m < 5 \<longrightarrow> scale_apply s 5 = colorHigh"
    by blast
  with c3 have f3: "scale_apply (scaleLinear [Fin 5, Fin 3, Fin 5] [colorLow, colorMid, colorHigh]) 5 = colorHigh"
    by (auto simp: scaleLinear_def)
  from p have p5: "scale_apply (scaleLinear [Fin 5, Fin 5, Fin 5] [colorLow, colorMid, colorHigh]) 5 = Rgb 235 140 110"
    and p4: "scale_apply (scaleLinear [Fin 5, Fin 5, Fin 5] [colorLow, colorMid, colorHigh]) 4 = Rgb 150 189 187"
    by simp_all
  from v st cp p5 p4 c7 f7 c3 f3 show ?thesis by blast
qed

section \<open>The fixed continuous scale of the monthly data\<close>

lemma interpolate_fixed:
  "interpolateRgb (Rgb 254 229 217) (Rgb 165 15 21) (Fin t) =
     Rgb (clampi (Fin (254 - t * 89))) (clampi (Fin (229 - t * 214))) (clampi (Fin (217 - t * 196)))"
  by (simp add: interpolateRgb_def nogamma_def)

lemma fixed_scale_apply:
  assumes "mn < mx"
  shows "scale_apply (createFixedContinuousColorScale (Fin mn) (Fin mx)) x
           = interpolateRgb (Rgb 254 229 217) (Rgb 165 15 21) (Fin ((x - mn) / (mx - mn)))"
proof -
  from assms have "mn \<le> mx" by simp
  from scale_apply_two [OF this] assms show ?thesis
    by (simp add: createFixedContinuousColorScale_def normalize_Fin)
qed

lemma set_allValues:
  "set (concat (map (\<lambda>f. filter_present (map (\<lambda>month. properties f month) MONTHS)) features))
     = {x. \<exists>f\<in>set features. \<exists>m\<in>set MONTHS. properties f m = JNum x}"
  by (auto simp: set_filter_present image_iff; metis)

lemma sample_minmax: "calculateMonthlyGlobalMinMax sample = (Fin 0, Fin 100)"
  by (simp add: calculateMonthlyGlobalMinMax_def sample_def amur_def nile_def volga_def
      danube_def basin_def MONTHS_def)

text \<open>
  Claim C6. When at least one month value is present, the extrema computed for the
  monthly data are the least and the greatest of all numbers found in the twelve month
  fields of all features, absent and \<^verbatim>\<open>null\<close> values left out. The scale built for the
  monthly statistic is the fixed continuous scale over these two numbers whatever month
  is selected. For \<open>mn < mx\<close> the fixed continuous scale maps \<open>mn\<close> to \<^verbatim>\<open>#fee5d9\<close>, \<open>mx\<close> to
  \<^verbatim>\<open>#a50f15\<close> and the midpoint to the interpolation of the two colours at \<open>t = 1/2\<close>, which
  prints as \<^verbatim>\<open>rgb(210, 122, 119)\<close>.
\<close>

theorem monthly_scale_uses_global_extrema:
  assumes "allValues = concat (map (\<lambda>f. filter_present (map (\<lambda>month. properties f month) MONTHS)) features)"
    and "allValues \<noteq> []"
  shows "calculateMonthlyGlobalMinMax features = (Fin (Min (set allValues)), Fin (Max (set allValues)))
       \<and> set allValues = {x. \<exists>f\<in>set features. \<exists>m\<in>set MONTHS. properties f m = JNum x}
       \<and> (selectedMonth \<noteq> [] \<longrightarrow>
            updateColorScale fl features ''monthly'' selectedMonth
                (Some (calculateMonthlyGlobalMinMax features))
              = Some (Inr (createFixedContinuousColorScale (Fin (Min (set allValues)))
                             (Fin (Max (set allValues))), True)))
       \<and> (mn < mx \<longrightarrow>
            scale_apply (createFixedContinuousColorScale (Fin mn) (Fin mx)) mn = Rgb 254 229 217
            \<and> scale_apply (createFixedContinuousColorScale (Fin mn) (Fin mx)) mx = Rgb 165 15 21
            \<and> scale_apply (createFixedContinuousColorScale (Fin mn) (Fin mx)) ((mn + mx) / 2)
                = interpolateRgb (Rgb 254 229 217) (Rgb 165 15 21) (Fin (1 / 2))
            \<and> interpolateRgb (Rgb 254 229 217) (Rgb 165 15 21) (Fin (1 / 2)) = Rgb 210 122 119)"
proof -
  have mm: "calculateMonthlyGlobalMinMax features
              = (Fin (Min (set allValues)), Fin (Max (set allValues)))"
    using assms(2) Math_min_Fin [of allValues] Math_max_Fin [of allValues]
    by (simp add: calculateMonthlyGlobalMinMax_def assms(1) [symmetric] Let_def)
  have st: "set allValues = {x. \<exists>f\<in>set features. \<exists>m\<in>set MONTHS. properties f m = JNum x}"
    unfolding assms(1) by (rule set_allValues)
  have upd: "updateColorScale fl features ''monthly'' selectedMonth
                (Some (calculateMonthlyGlobalMinMax features))
              = Some (Inr (createFixedContinuousColorScale (Fin (Min (set allValues)))
                             (Fin (Max (set allValues))), True))"
    if "selectedMonth \<noteq> []"
    using that by (simp add: updateColorScale_def mm)
  have ends: "scale_apply (createFixedContinuousColorScale (Fin mn) (Fin mx)) mn = Rgb 254 229 217
            \<and> scale_apply (createFixedContinuousColorScale (Fin mn) (Fin mx)) mx = Rgb 165 15 21
            \<and> scale_apply (createFixedContinuousColorScale (Fin mn) (Fin mx)) ((mn + mx) / 2)
                = interpolateRgb (Rgb 254 229 217) (Rgb 165 15 21) (Fin (1 / 2))
            \<and> interpolateRgb (Rgb 254 229 217) (Rgb 165 15 21) (Fin (1 / 2)) = Rgb 210 122 119"
    if lt: "mn < mx"
  proof -
    have "(mn + mx) / 2 - mn = (mx - mn) / 2" by (simp add: field_simps)
    with lt have half: "((mn + mx) / 2 - mn) / (mx - mn) = 1 / 2" by simp
    have a: "scale_apply (createFixedContinuousColorScale (Fin mn) (Fin mx)) mn = Rgb 254 229 217"
      unfolding fixed_scale_apply [OF lt] using lt by (simp add: interpolate_fixed)
    have b: "scale_apply (createFixedContinuousColorScale (Fin mn) (Fin mx)) mx = Rgb 165 15 21"
      unfolding fixed_scale_apply [OF lt] using lt by (simp add: interpolate_fixed)
    have c: "scale_apply (createFixedContinuousColorScale (Fin mn) (Fin mx)) ((mn + mx) / 2)
                = interpolateRgb (Rgb 254 229 217) (Rgb 165 15 21) (Fin (1 / 2))"
      unfolding fixed_scale_apply [OF lt] half ..
    have d: "interpolateRgb (Rgb 254 229 217) (Rgb 165 15 21) (Fin (1 / 2)) = Rgb 210 122 119"
      unfolding interpolate_fixed by simp
    from a b c d show ?thesis by blast
  qed
  from mm st upd ends show ?thesis by blast
qed

theorem monthly_scale_witness:
  "concat (map (\<lambda>f. filter_present (map (\<lambda>month. properties f month) MONTHS)) sample) \<noteq> []
   \<and> calculateMonthlyGlobalMinMax sample = (Fin 0, Fin 100)
   \<and> updateColorScale id sample ''monthly'' ''jan'' (Some (calculateMonthlyGlobalMinMax sample))
       = Some (Inr (createFixedContinuousColorScale (Fin 0) (Fin 100), True))
   \<and> updateColorScale id sample ''monthly'' ''jul'' (Some (calculateMonthlyGlobalMinMax sample))
       = Some (Inr (createFixedContinuousColorScale (Fin 0) (Fin 100), True))
   \<and> scale_apply (createFixedContinuousColorScale (Fin 0) (Fin 100)) 0 = Rgb 254 229 217
   \<and> scale_apply (createFixedContinuousColorScale (Fin 0) (Fin 100)) 100 = Rgb 165 15 21
   \<and> scale_apply (createFixedContinuousColorScale (Fin 0) (Fin 100)) 50 = Rgb 210 122 119"
proof -
  let ?all = "concat (map (\<lambda>f. filter_present (map (\<lambda>month. properties f month) MONTHS)) sample)"
  have ne: "?all \<noteq> []"
    by (simp add: sample_def amur_def basin_def MONTHS_def)
  have lt: "(0::real) < 100" by simp
  note main = monthly_scale_uses_global_extrema [OF refl ne]
  from main [where selectedMonth = "''jan''" and fl = id and mn = 0 and mx = 100]
  have "calculateMonthlyGlobalMinMax sample = (Fin (Min (set ?all)), Fin (Max (set ?all)))"
    by blast
  with sample_minmax have "(Fin (Min (set ?all)), Fin (Max (set ?all))) = (Fin 0, Fin 100)"
    by (simp only:)
  then have "Min (set ?all) = 0 \<and> Max (set ?all) = 100"
    by (simp only: prod.inject jsnumber.inject)
  then have mm: "Min (set ?all) = 0" "Max (set ?all) = 100" by blast+
  from main [where selectedMonth = "''jan''" and fl = id and mn = 0 and mx = 100]
  have "''jan'' \<noteq> [] \<longrightarrow>
      updateColorScale id sample ''monthly'' ''jan'' (Some (calculateMonthlyGlobalMinMax sample))
       = Some (Inr (createFixedContinuousColorScale (Fin (Min (set ?all))) (Fin (Max (set ?all))), True))"
    by blast
  then have jan: "updateColorScale id sample ''monthly'' ''jan'' (Some (calculateMonthlyGlobalMinMax sample))
       = Some (Inr (createFixedContinuousColorScale (Fin 0) (Fin 100), True))"
    unfolding mm by simp
  from main [where selectedMonth = "''jul''" and fl = id and mn = 0 and mx = 100]
  have "''jul'' \<noteq> [] \<longrightarrow>
      updateColorScale id sample ''monthly'' ''jul'' (Some (calculateMonthlyGlobalMinMax sample))
       = Some (Inr (createFixedContinuousColorScale (Fin (Min (set ?all))) (Fin (Max (set ?all))), True))"
    by blast
  then have jul: "updateColorScale id sample ''monthly'' ''jul'' (Some (calculateMonthlyGlobalMinMax sample))
       = Some (Inr (createFixedContinuousColorScale (Fin 0) (Fin 100), True))"
    unfolding mm by simp
  from main [where selectedMonth = "''jan''" and fl = id and mn = 0 and mx = 100]
  have "(0::real) < 100 \<longrightarrow>
      scale_apply (createFixedContinuousColorScale (Fin 0) (Fin 100)) 0 = Rgb 254 229 217
      \<and> scale_apply (createFixedContinuousColorScale (Fin 0) (Fin 100)) 100 = Rgb 165 15 21
      \<and> scale_apply (createFixedContinuousColorScale (Fin 0) (Fin 100)) ((0 + 100) / 2)
          = interpolateRgb (Rgb 254 229 217) (Rgb 165 15 21) (Fin (1 / 2))
      \<and> interpolateRgb (Rgb 254 229 217) (Rgb 165 15 21) (Fin (1 / 2)) = Rgb 210 122 119"
    by blast
  with lt have sc: "scale_apply (createFixedContinuousColorScale (Fin 0) (Fin 100)) 0 = Rgb 254 229 217"
    "scale_apply (createFixedContinuousColorScale (Fin 0) (Fin 100)) 100 = Rgb 165 15 21"
    "scale_apply (createFixedContinuousColorScale (Fin 0) (Fin 100)) 50 = Rgb 210 122 119"
    by simp_all
  from ne sample_minmax jan jul sc show ?thesis by blast
qed

end
